theory Spec2Isabelle
  imports Complex_Main
begin

section \<open>Data model\<close>

text \<open>
  The errors the handlers pass to \<^verbatim>\<open>next\<close>: \<^verbatim>\<open>new ErrorHandler(message, statusCode)\<close>.
\<close>

datatype ErrorHandler = ErrorHandler string nat

text \<open>
  The fields of \<^verbatim>\<open>userSchema\<close> (model/user.js) and \<^verbatim>\<open>shopSchema\<close> (model/shop.js) that the
  account handlers and the auth middleware read or write. Both schemas declare them with
  the same names and types; the remaining fields (addresses, phone number, balance, ...)
  are read by no handler modelled here. \<open>oid\<close> is the document's \<^verbatim>\<open>_id\<close>. An absent
  (\<^verbatim>\<open>undefined\<close>) OTP or expiry is \<open>None\<close>.
\<close>

record account =
  oid :: nat
  name :: string
  email :: string
  password :: string
  role :: string
  avatar :: "string \<times> string"
  verificationOtp :: "string option"
  verificationOtpExpiry :: "int option"
  isVerified :: bool

text \<open>
  A Mongoose document in memory: the field values, whether it is new, and the paths
  assigned a different value since it was loaded (what \<^verbatim>\<open>isModified\<close> reads).
\<close>

record document =
  doc :: account
  isNew :: bool
  modifiedPaths :: "string list"

text \<open>The mail handed to \<^verbatim>\<open>sendMail\<close>: recipient, subject, message.\<close>

datatype mail = Mail string string string

text \<open>
  What the handlers answer with: \<^verbatim>\<open>res.status(n).json({success: true, message})\<close>, or the
  answer of \<^verbatim>\<open>sendToken\<close> / \<^verbatim>\<open>sendShopToken\<close>: status, the session cookie's name, the
  token, and the account.
\<close>

datatype response =
  Json nat string
| TokenResponse nat string string account

text \<open>
  The libraries and the configuration the code calls, none of them part of the
  repository: bcryptjs (\<open>bcrypt_hash salt data\<close>, the salt being the one
  \<^verbatim>\<open>bcrypt.hash(data, 10)\<close> draws; \<open>bcrypt_compare data hash\<close>), jsonwebtoken
  (\<open>jwt_sign id secret expiresIn\<close> for \<^verbatim>\<open>jwt.sign({id}, secret, {expiresIn})\<close>;
  \<open>jwt_verify token secret\<close> gives the decoded \<^verbatim>\<open>id\<close> or the message of the error
  thrown), the mail transport (\<open>Some msg\<close> when \<^verbatim>\<open>sendMail\<close> rejects with an error of that
  message), the media host, the validators Mongoose runs from each schema before a
  document is written (\<open>Some msg\<close> for a ValidationError), and the two environment
  variables read through \<^verbatim>\<open>process.env\<close>.
\<close>

record world =
  bcrypt_hash :: "string \<Rightarrow> string \<Rightarrow> string"
  bcrypt_compare :: "string \<Rightarrow> string \<Rightarrow> bool"
  jwt_sign :: "nat \<Rightarrow> string \<Rightarrow> string \<Rightarrow> string"
  jwt_verify :: "string \<Rightarrow> string \<Rightarrow> string + nat"
  sendMail :: "mail \<Rightarrow> string option"
  cloudinary_upload :: "string \<Rightarrow> string \<Rightarrow> string + string \<times> string"
  userSchema_validate :: "account \<Rightarrow> string option"
  shopSchema_validate :: "account \<Rightarrow> string option"
  JWT_SECRET_KEY :: string
  JWT_EXPIRES :: string

text \<open>
  What one request draws from outside: the clock (\<^verbatim>\<open>Date.now()\<close>, milliseconds),
  \<^verbatim>\<open>Math.random()\<close>, the salt bcrypt generates, and the \<^verbatim>\<open>_id\<close> Mongoose gives a new
  document.
\<close>

record env =
  Date_now :: int
  Math_random :: real
  genSalt :: string
  new_id :: nat

section \<open>The credential store\<close>

text \<open>
  Both schemas declare the email with \<^verbatim>\<open>lowercase: true\<close>: Mongoose passes the email through
  \<^verbatim>\<open>String.prototype.toLowerCase\<close> when a document is given one and when a filter names
  one. The letters A to Z are mapped; the other characters are kept.
\<close>

definition toLowerCase_char :: "char \<Rightarrow> char" where
  "toLowerCase_char c =
     (case map_of (zip ''ABCDEFGHIJKLMNOPQRSTUVWXYZ'' ''abcdefghijklmnopqrstuvwxyz'') c of
        None \<Rightarrow> c
      | Some l \<Rightarrow> l)"

definition toLowerCase :: "string \<Rightarrow> string" where
  "toLowerCase s = map toLowerCase_char s"

text \<open>
  A collection is the list of its documents. \<^verbatim>\<open>Model.findOne({email})\<close> and
  \<^verbatim>\<open>Model.findById(id)\<close> return the first match or \<^verbatim>\<open>null\<close>; the filter's email is
  lower-cased as the schema says. A loaded document keeps in \<open>doc\<close> the stored value of
  every field, so that writing it back leaves the fields it did not assign as they were.
  The password among them is not handed to the code unless the query selected it (the
  schemas say \<^verbatim>\<open>select: false\<close>), and no handler here reads it from a document loaded
  without it.
\<close>

definition findOne :: "account list \<Rightarrow> string \<Rightarrow> account option" where
  "findOne coll e = find (\<lambda>a. email a = toLowerCase e) coll"

definition findById :: "account list \<Rightarrow> nat \<Rightarrow> account option" where
  "findById coll i = find (\<lambda>a. oid a = i) coll"

definition load :: "account \<Rightarrow> document" where
  "load a = \<lparr>doc = a, isNew = False, modifiedPaths = []\<rparr>"

text \<open>An assignment \<^verbatim>\<open>doc.path = value\<close>: the path is modified when the value changes.\<close>

definition assign :: "string \<Rightarrow> (account \<Rightarrow> account) \<Rightarrow> document \<Rightarrow> document" where
  "assign path upd d =
     (let a = upd (doc d)
      in d\<lparr>doc := a,
           modifiedPaths := (if a = doc d then modifiedPaths d else path # modifiedPaths d)\<rparr>)"

text \<open>
  \<^verbatim>\<open>this.isModified(path)\<close>: every path a new document was given counts as modified.
\<close>

definition isModified :: "document \<Rightarrow> string \<Rightarrow> bool" where
  "isModified d path = (isNew d \<or> path \<in> set (modifiedPaths d))"

text \<open>
  model/user.js, \<^verbatim>\<open>userSchema.pre("save")\<close>:
  \<^verbatim>\<open>if (!this.isModified("password")) { return next(); }
  this.password = await bcrypt.hash(this.password, 10); next();\<close>
\<close>

definition user_pre_save :: "world \<Rightarrow> string \<Rightarrow> document \<Rightarrow> document" where
  "user_pre_save w s d =
     (if \<not> isModified d ''password'' then d
      else d\<lparr>doc := (doc d)\<lparr>password := bcrypt_hash w s (password (doc d))\<rparr>\<rparr>)"

text \<open>
  model/shop.js, \<^verbatim>\<open>shopSchema.pre("save")\<close>:
  \<^verbatim>\<open>if (!this.isModified("password")) { next(); }
  this.password = await bcrypt.hash(this.password, 10);\<close>
  Mongoose goes on with the save when the hook calls \<^verbatim>\<open>next()\<close> or, when it has not, once
  the promise of the async hook settles. The not-modified branch calls \<^verbatim>\<open>next()\<close> and does
  not return: the save goes on at that call, with the document as it is, and the
  statement after the branch no longer reaches the write. (The shop handlers load the
  document without its password, so \<^verbatim>\<open>bcrypt.hash\<close> is handed \<^verbatim>\<open>undefined\<close> and rejects; a
  hash that did settle would be assigned to the document in memory after the write was
  issued.) In the other branch nothing calls \<^verbatim>\<open>next()\<close>: the save goes on when the promise
  settles, after the assignment. The result is the document the save goes on with.
\<close>

definition shop_pre_save :: "world \<Rightarrow> string \<Rightarrow> document \<Rightarrow> document" where
  "shop_pre_save w s d =
     (if \<not> isModified d ''password'' then d
      else d\<lparr>doc := (doc d)\<lparr>password := bcrypt_hash w s (password (doc d))\<rparr>\<rparr>)"

text \<open>
  Writing a document: a new one is inserted, a loaded one replaces the stored document of
  its \<^verbatim>\<open>_id\<close>.
\<close>

definition persist :: "account list \<Rightarrow> document \<Rightarrow> account list" where
  "persist coll d =
     (if isNew d then coll @ [doc d]
      else map (\<lambda>x. if oid x = oid (doc d) then doc d else x) coll)"

text \<open>
  \<^verbatim>\<open>doc.save()\<close>: validation, the schema's pre-save hook, the write. A ValidationError is
  thrown to the caller (\<open>Inl\<close> its message) and nothing is written.
\<close>

definition user_save ::
  "world \<Rightarrow> string \<Rightarrow> account list \<Rightarrow> document \<Rightarrow> string + account list \<times> document" where
  "user_save w s coll d =
     (case userSchema_validate w (doc d) of
        Some msg \<Rightarrow> Inl msg
      | None \<Rightarrow> (let d' = user_pre_save w s d in Inr (persist coll d', d')))"

definition shop_save ::
  "world \<Rightarrow> string \<Rightarrow> account list \<Rightarrow> document \<Rightarrow> string + account list \<times> document" where
  "shop_save w s coll d =
     (case shopSchema_validate w (doc d) of
        Some msg \<Rightarrow> Inl msg
      | None \<Rightarrow> (let d' = shop_pre_save w s d in Inr (persist coll d', d')))"

section \<open>Tokens\<close>

text \<open>
  \<^verbatim>\<open>getJwtToken\<close>, the same in both models:
  \<^verbatim>\<open>jwt.sign({ id: this._id }, process.env.JWT_SECRET_KEY, { expiresIn: process.env.JWT_EXPIRES })\<close>.
\<close>

definition getJwtToken :: "world \<Rightarrow> account \<Rightarrow> string" where
  "getJwtToken w a = jwt_sign w (oid a) (JWT_SECRET_KEY w) (JWT_EXPIRES w)"

text \<open>
  Modelled from the spec: \<^verbatim>\<open>sendToken\<close> (utils/jwtToken) is not among the source files.
  The spec has login and activation mint a bearer token through the Token Service and
  return it, setting the end-user session cookie, named \<^verbatim>\<open>token\<close>.
\<close>

definition sendToken :: "world \<Rightarrow> account \<Rightarrow> nat \<Rightarrow> response" where
  "sendToken w user statusCode = TokenResponse statusCode ''token'' (getJwtToken w user) user"

text \<open>
  Modelled from the spec: \<^verbatim>\<open>sendShopToken\<close> (utils/shopToken) is not among the source
  files. It is handed the token the handler minted; the spec has it returned to the
  caller with the shop session cookie, named \<^verbatim>\<open>seller_token\<close>, set.
\<close>

definition sendShopToken :: "account \<Rightarrow> nat \<Rightarrow> string \<Rightarrow> response" where
  "sendShopToken shop statusCode token = TokenResponse statusCode ''seller_token'' token shop"

section \<open>Activation and login\<close>

text \<open>
  \<^verbatim>\<open>user.verificationOtpExpiry < Date.now()\<close>: false when the expiry is \<^verbatim>\<open>undefined\<close>.
\<close>

definition expired :: "int option \<Rightarrow> int \<Rightarrow> bool" where
  "expired t now = (case t of None \<Rightarrow> False | Some t' \<Rightarrow> t' < now)"

text \<open>
  controller/user.js, \<^verbatim>\<open>POST /activation\<close>. A body field that is missing or empty is the
  empty string: \<^verbatim>\<open>!email\<close> holds of both. The result is what \<^verbatim>\<open>next\<close> or \<^verbatim>\<open>res\<close> received,
  with the collection afterwards.
\<close>

definition user_activation ::
  "world \<Rightarrow> env \<Rightarrow> account list \<Rightarrow> string \<Rightarrow> string \<Rightarrow> (ErrorHandler + response) \<times> account list" where
  "user_activation w e users email_in otp =
     (if email_in = [] \<or> otp = [] then (Inl (ErrorHandler ''Email and OTP are required'' 400), users)
      else case findOne users email_in of
        None \<Rightarrow> (Inl (ErrorHandler ''User not found'' 400), users)
      | Some user \<Rightarrow>
          if isVerified user then (Inl (ErrorHandler ''User already verified'' 400), users)
          else if verificationOtp user \<noteq> Some otp \<or> expired (verificationOtpExpiry user) (Date_now e)
          then (Inl (ErrorHandler ''Invalid or expired OTP'' 400), users)
          else
            (let d1 = assign ''isVerified'' (\<lambda>a. a\<lparr>isVerified := True\<rparr>) (load user);
                 d2 = assign ''verificationOtp'' (\<lambda>a. a\<lparr>verificationOtp := None\<rparr>) d1;
                 d3 = assign ''verificationOtpExpiry'' (\<lambda>a. a\<lparr>verificationOtpExpiry := None\<rparr>) d2
             in case user_save w (genSalt e) users d3 of
                  Inl msg \<Rightarrow> (Inl (ErrorHandler msg 500), users)
                | Inr (users', d') \<Rightarrow> (Inr (sendToken w (doc d') 201), users')))"

text \<open>controller/shop.js, \<^verbatim>\<open>POST /activation\<close>.\<close>

definition shop_activation ::
  "world \<Rightarrow> env \<Rightarrow> account list \<Rightarrow> string \<Rightarrow> string \<Rightarrow> (ErrorHandler + response) \<times> account list" where
  "shop_activation w e shops email_in otp =
     (if email_in = [] \<or> otp = [] then (Inl (ErrorHandler ''Email and OTP are required'' 400), shops)
      else case findOne shops email_in of
        None \<Rightarrow> (Inl (ErrorHandler ''Shop not found'' 400), shops)
      | Some shop \<Rightarrow>
          if isVerified shop then (Inl (ErrorHandler ''Shop already verified'' 400), shops)
          else if verificationOtp shop \<noteq> Some otp \<or> expired (verificationOtpExpiry shop) (Date_now e)
          then (Inl (ErrorHandler ''Invalid or expired OTP'' 400), shops)
          else
            (let d1 = assign ''isVerified'' (\<lambda>a. a\<lparr>isVerified := True\<rparr>) (load shop);
                 d2 = assign ''verificationOtp'' (\<lambda>a. a\<lparr>verificationOtp := None\<rparr>) d1;
                 d3 = assign ''verificationOtpExpiry'' (\<lambda>a. a\<lparr>verificationOtpExpiry := None\<rparr>) d2
             in case shop_save w (genSalt e) shops d3 of
                  Inl msg \<Rightarrow> (Inl (ErrorHandler msg 500), shops)
                | Inr (shops', d') \<Rightarrow>
                    (Inr (sendShopToken (doc d') 201 (getJwtToken w (doc d'))), shops')))"

text \<open>
  \<^verbatim>\<open>comparePassword\<close>, the same in both models:
  \<^verbatim>\<open>bcrypt.compare(enteredPassword, this.password)\<close>.
\<close>

definition comparePassword :: "world \<Rightarrow> account \<Rightarrow> string \<Rightarrow> bool" where
  "comparePassword w a enteredPassword = bcrypt_compare w enteredPassword (password a)"

text \<open>controller/user.js, \<^verbatim>\<open>POST /login-user\<close>. The store is not written.\<close>

definition user_login :: "world \<Rightarrow> account list \<Rightarrow> string \<Rightarrow> string \<Rightarrow> ErrorHandler + response" where
  "user_login w users email_in password_in =
     (if email_in = [] \<or> password_in = [] then Inl (ErrorHandler ''Please provide all fields!'' 400)
      else case findOne users email_in of
        None \<Rightarrow> Inl (ErrorHandler ''User doesn't exist!'' 400)
      | Some user \<Rightarrow>
          if \<not> isVerified user then Inl (ErrorHandler ''Please verify your account first!'' 400)
          else if \<not> comparePassword w user password_in then Inl (ErrorHandler ''Invalid credentials'' 400)
          else Inr (sendToken w user 201))"

text \<open>controller/shop.js, \<^verbatim>\<open>POST /login-shop\<close>.\<close>

definition shop_login :: "world \<Rightarrow> account list \<Rightarrow> string \<Rightarrow> string \<Rightarrow> ErrorHandler + response" where
  "shop_login w shops email_in password_in =
     (if email_in = [] \<or> password_in = [] then Inl (ErrorHandler ''Please provide all fields!'' 400)
      else case findOne shops email_in of
        None \<Rightarrow> Inl (ErrorHandler ''Shop doesn't exist!'' 400)
      | Some shop \<Rightarrow>
          if \<not> isVerified shop
          then Inl (ErrorHandler ''Please verify your shop account first!'' 400)
          else if \<not> comparePassword w shop password_in then Inl (ErrorHandler ''Invalid credentials'' 400)
          else Inr (sendShopToken shop 201 (getJwtToken w shop)))"

section \<open>Registration\<close>

text \<open>\<^verbatim>\<open>Number.prototype.toString()\<close> of an integer: its decimal digits, with a sign.\<close>

definition digit_char :: "nat \<Rightarrow> char" where
  "digit_char n = ''0123456789'' ! n"

fun toString_nat :: "nat \<Rightarrow> string" where
  "toString_nat n = (if n < 10 then [digit_char n] else toString_nat (n div 10) @ [digit_char (n mod 10)])"

definition toString :: "int \<Rightarrow> string" where
  "toString i = (if i < 0 then CHR ''-'' # toString_nat (nat (- i)) else toString_nat (nat i))"

text \<open>
  JavaScript numbers are IEEE 754 doubles: the result of \<^verbatim>\<open>*\<close> and of \<^verbatim>\<open>+\<close> is the exact
  result rounded to the nearest double, ties to the even significand. A double is a
  multiple of the unit in the last place of its binade, \<open>2 powi (e - 52)\<close> for the binary
  exponent \<open>e\<close>, which is not below \<open>- 1022\<close>. \<open>floor_log2 a\<close> is that exponent for a
  positive \<open>a\<close>. Overflow is left out: \<open>double\<close> is the rounding for magnitudes below
  \<open>2 ^ 1024\<close>.
\<close>

fun log2floor :: "nat \<Rightarrow> nat" where
  "log2floor n = (if n < 2 then 0 else Suc (log2floor (n div 2)))"

definition floor_log2 :: "real \<Rightarrow> int" where
  "floor_log2 a =
     (if 1 \<le> a then int (log2floor (nat \<lfloor>a\<rfloor>))
      else - int (Suc (log2floor (nat (\<lceil>1 / a\<rceil> - 1)))))"

definition exponent :: "real \<Rightarrow> int" where
  "exponent x = max (- 1022) (floor_log2 \<bar>x\<bar>)"

definition ulp :: "real \<Rightarrow> real" where
  "ulp x = 2 powi (exponent x - 52)"

definition roundTiesToEven :: "real \<Rightarrow> int" where
  "roundTiesToEven y =
     (let f = \<lfloor>y\<rfloor>
      in if y - of_int f < 1 / 2 then f
         else if 1 / 2 < y - of_int f then f + 1
         else if even f then f else f + 1)"

definition double :: "real \<Rightarrow> real" where
  "double x = (if x = 0 then 0 else of_int (roundTiesToEven (x / ulp x)) * ulp x)"

text \<open>
  \<^verbatim>\<open>Math.floor(100000 + Math.random() * 900000).toString()\<close>: the product and the sum are
  each rounded to a double; 100000 and 900000 are doubles.
\<close>

definition generate_otp :: "real \<Rightarrow> string" where
  "generate_otp r = toString \<lfloor>double (100000 + double (r * 900000))\<rfloor>"

text \<open>
  The fields of the request body that \<^verbatim>\<open>POST /create-user\<close> reads; a missing field is the
  empty string. The phone number goes into a field no handler here reads.
\<close>

record user_body =
  body_name :: string
  body_email :: string
  body_password :: string
  body_avatar :: string
  body_role :: string

text \<open>
  controller/user.js, \<^verbatim>\<open>POST /create-user\<close>. The express-validator chains of the route are
  declared and their result is never read, so they reject nothing. The third component
  lists the mails handed to \<^verbatim>\<open>sendMail\<close>. An error of the avatar upload reaches the outer
  \<^verbatim>\<open>catch\<close> (400); one of \<^verbatim>\<open>sendMail\<close> or \<^verbatim>\<open>User.create\<close> the inner one (500). The mail
  and the answer name the email as the request gave it; the document \<^verbatim>\<open>User.create\<close> makes
  of the object holds it lower-cased.
\<close>

definition create_user ::
  "world \<Rightarrow> env \<Rightarrow> account list \<Rightarrow> user_body \<Rightarrow> (ErrorHandler + response) \<times> account list \<times> mail list" where
  "create_user w e users b =
     (case findOne users (body_email b) of
        Some userEmail \<Rightarrow> (Inl (ErrorHandler ''User already exists'' 400), users, [])
      | None \<Rightarrow>
          (case (if body_avatar b \<noteq> [] then cloudinary_upload w (body_avatar b) ''avatars''
                 else Inr ([], [])) of
             Inl msg \<Rightarrow> (Inl (ErrorHandler msg 400), users, [])
           | Inr avatarData \<Rightarrow>
               (let otp = generate_otp (Math_random e);
                    otpExpiry = Date_now e + 10 * 60 * 1000;
                    user = \<lparr>oid = new_id e, name = body_name b, email = body_email b,
                            password = body_password b,
                            role = (if body_role b \<noteq> [] then body_role b else ''user''),
                            avatar = avatarData,
                            verificationOtp = Some otp, verificationOtpExpiry = Some otpExpiry,
                            isVerified = False\<rparr>;
                    m = Mail (email user) ''Activate your account''
                          (''Hello '' @ name user @ '', your OTP to activate your account is '' @ otp
                           @ ''. It expires in 10 minutes.'')
                in case sendMail w m of
                     Some msg \<Rightarrow> (Inl (ErrorHandler msg 500), users, [m])
                   | None \<Rightarrow>
                       (case user_save w (genSalt e) users
                               \<lparr>doc = user\<lparr>email := toLowerCase (email user)\<rparr>, isNew = True,
                                modifiedPaths = []\<rparr> of
                          Inl msg \<Rightarrow> (Inl (ErrorHandler msg 500), users, [m])
                        | Inr (users', d) \<Rightarrow>
                            (Inr (Json 201 (''Please check your email ('' @ email user
                                   @ '') to activate your account with the OTP!'')),
                             users', [m])))))"

text \<open>
  The fields of the request body that \<^verbatim>\<open>POST /create-shop\<close> reads and the account keeps.
  The avatar is an object here, \<open>None\<close> when missing; address, zip code and phone go into
  fields no handler here reads.
\<close>

record shop_body =
  shop_name :: string
  shop_email :: string
  shop_password :: string
  shop_avatar :: "(string \<times> string) option"

text \<open>
  The shop schema declares the name with \<^verbatim>\<open>trim: true\<close>: the document holds it without
  the white space at its ends (here: space, tab, line feed, vertical tab, form feed,
  carriage return).
\<close>

definition trim :: "string \<Rightarrow> string" where
  "trim s =
     (let ws = (\<lambda>c. c \<in> set [CHR '' '', CHR 0x09, CHR 0x0A, CHR 0x0B, CHR 0x0C, CHR 0x0D])
      in rev (dropWhile ws (rev (dropWhile ws s))))"

text \<open>
  controller/shop.js, \<^verbatim>\<open>POST /create-shop\<close>. The mail and the answer use the object as the
  request gave it; the document \<^verbatim>\<open>Shop.create\<close> makes of it holds the email lower-cased and
  the name trimmed.
\<close>

definition create_shop ::
  "world \<Rightarrow> env \<Rightarrow> account list \<Rightarrow> shop_body \<Rightarrow> (ErrorHandler + response) \<times> account list \<times> mail list" where
  "create_shop w e shops b =
     (case findOne shops (shop_email b) of
        Some shopEmail \<Rightarrow> (Inl (ErrorHandler ''Shop with this email already exists'' 400), shops, [])
      | None \<Rightarrow>
          (let shop = \<lparr>oid = new_id e, name = shop_name b, email = shop_email b,
                        password = shop_password b,
                        role = ''Seller'',
                        avatar = (case shop_avatar b of Some av \<Rightarrow> av | None \<Rightarrow> ([], [])),
                        verificationOtp = Some (generate_otp (Math_random e)),
                        verificationOtpExpiry = Some (Date_now e + 10 * 60 * 1000),
                        isVerified = False\<rparr>;
               m = Mail (email shop) ''Activate your shop account''
                     (''Hello '' @ name shop @ '', your OTP to activate your shop account is ''
                      @ generate_otp (Math_random e) @ ''. It expires in 10 minutes.'')
           in case sendMail w m of
                Some msg \<Rightarrow> (Inl (ErrorHandler msg 500), shops, [m])
              | None \<Rightarrow>
                  (case shop_save w (genSalt e) shops
                          \<lparr>doc = shop\<lparr>name := trim (name shop),
                                      email := toLowerCase (email shop)\<rparr>,
                           isNew = True, modifiedPaths = []\<rparr> of
                     Inl msg \<Rightarrow> (Inl (ErrorHandler msg 500), shops, [m])
                   | Inr (shops', d) \<Rightarrow>
                       (Inr (Json 201 (''Please check your email ('' @ email shop
                              @ '') to activate your shop account with the OTP!'')),
                        shops', [m]))))"

section \<open>Auth middleware\<close>

text \<open>
  What the middleware reads of a request: the two session cookies and the Authorization
  header, \<open>None\<close> when absent.
\<close>

record request =
  cookies_token :: "string option"
  cookies_seller_token :: "string option"
  headers_authorization :: "string option"

text \<open>\<^verbatim>\<open>!token\<close> for a token that is a string or \<^verbatim>\<open>undefined\<close>.\<close>

definition falsy :: "string option \<Rightarrow> bool" where
  "falsy t = (case t of None \<Rightarrow> True | Some s \<Rightarrow> s = [])"

text \<open>\<^verbatim>\<open>String.prototype.startsWith\<close> and \<^verbatim>\<open>String.prototype.split\<close> on a one-character separator.\<close>

definition startsWith :: "string \<Rightarrow> string \<Rightarrow> bool" where
  "startsWith s p = (take (length p) s = p)"

fun split :: "char \<Rightarrow> string \<Rightarrow> string list" where
  "split c [] = [[]]"
| "split c (x # xs) =
     (if x = c then [] # split c xs
      else (case split c xs of [] \<Rightarrow> [[x]] | y # ys \<Rightarrow> (x # y) # ys))"

text \<open>\<^verbatim>\<open>array[i]\<close>: \<^verbatim>\<open>undefined\<close> out of range.\<close>

definition index :: "'a list \<Rightarrow> nat \<Rightarrow> 'a option" where
  "index xs i = (if i < length xs then Some (xs ! i) else None)"

text \<open>
  middleware/auth.js, \<^verbatim>\<open>isAuthenticated\<close>: the request's principal \<^verbatim>\<open>req.user\<close>, or the error
  passed to \<^verbatim>\<open>next\<close>.
\<close>

definition isAuthenticated :: "world \<Rightarrow> account list \<Rightarrow> request \<Rightarrow> ErrorHandler + account" where
  "isAuthenticated w users req =
     (if falsy (cookies_token req) then Inl (ErrorHandler ''Please login to continue'' 401)
      else case cookies_token req of
        None \<Rightarrow> Inl (ErrorHandler ''Please login to continue'' 401)
      | Some token \<Rightarrow>
          (case jwt_verify w token (JWT_SECRET_KEY w) of
             Inl err \<Rightarrow> Inl (ErrorHandler ''Invalid or expired token'' 401)
           | Inr decoded_id \<Rightarrow>
               (case findById users decoded_id of
                  None \<Rightarrow> Inl (ErrorHandler ''User not found'' 404)
                | Some user \<Rightarrow> Inr user)))"

text \<open>
  middleware/auth.js, \<^verbatim>\<open>isSeller\<close>: the shop \<^verbatim>\<open>req.seller\<close> with the token attached to it
  (\<^verbatim>\<open>req.seller.token = token\<close>), or the error passed to \<^verbatim>\<open>next\<close>.
\<close>

definition seller_token_of :: "request \<Rightarrow> string option" where
  "seller_token_of req =
     (let token = cookies_seller_token req
      in if falsy token \<and>
            (case headers_authorization req of None \<Rightarrow> False | Some h \<Rightarrow> startsWith h ''Bearer '')
         then (case headers_authorization req of
                 None \<Rightarrow> token
               | Some h \<Rightarrow> index (split CHR '' '' h) 1)
         else token)"

definition isSeller :: "world \<Rightarrow> account list \<Rightarrow> request \<Rightarrow> ErrorHandler + account \<times> string" where
  "isSeller w shops req =
     (if falsy (seller_token_of req) then Inl (ErrorHandler ''Please login as a seller to continue'' 401)
      else case seller_token_of req of
        None \<Rightarrow> Inl (ErrorHandler ''Please login as a seller to continue'' 401)
      | Some token \<Rightarrow>
          (case jwt_verify w token (JWT_SECRET_KEY w) of
             Inl err \<Rightarrow> Inl (ErrorHandler ''Invalid or expired seller token'' 401)
           | Inr decoded_id \<Rightarrow>
               (case findById shops decoded_id of
                  None \<Rightarrow> Inl (ErrorHandler ''Seller not found'' 404)
                | Some seller \<Rightarrow>
                    if \<not> isVerified seller
                    then Inl (ErrorHandler ''Please verify your shop account'' 403)
                    else Inr (seller, token))))"

text \<open>
  middleware/auth.js, \<^verbatim>\<open>isAdmin(...roles)\<close>: \<^verbatim>\<open>req.user?.role\<close> is \<^verbatim>\<open>undefined\<close> without a
  principal, and \<^verbatim>\<open>roles.includes\<close> of it is false; the message names
  \<^verbatim>\<open>req.user?.role || "User"\<close>.
\<close>

definition isAdmin :: "string list \<Rightarrow> account option \<Rightarrow> ErrorHandler + unit" where
  "isAdmin roles user =
     (let r = map_option role user
      in if \<not> (case r of None \<Rightarrow> False | Some x \<Rightarrow> x \<in> set roles)
         then Inl (ErrorHandler ((if falsy r then ''User'' else (case r of None \<Rightarrow> ''User'' | Some x \<Rightarrow> x))
                     @ '' is not allowed to access this resource!'') 403)
         else Inr ())"

section \<open>A sample environment\<close>

text \<open>
  Concrete stand-ins for the libraries, on which the theorems below are exercised: a hash
  that prefixes the salt, a token that writes the id in unary before the secret, a mail
  transport that delivers, validators that accept.
\<close>

definition sample_world :: world where
  "sample_world =
     \<lparr>bcrypt_hash = (\<lambda>s d. s @ CHR ''$'' # d),
      bcrypt_compare = (\<lambda>d h. dropWhile (\<lambda>c. c \<noteq> CHR ''$'') h = CHR ''$'' # d),
      jwt_sign = (\<lambda>i k x. replicate i (CHR ''i'') @ CHR ''.'' # k),
      jwt_verify = (\<lambda>t k. if dropWhile (\<lambda>c. c \<noteq> CHR ''.'') t = CHR ''.'' # k
                           then Inr (length (takeWhile (\<lambda>c. c \<noteq> CHR ''.'') t))
                           else Inl ''invalid signature''),
      sendMail = (\<lambda>m. None),
      cloudinary_upload = (\<lambda>f d. Inr (d, f)),
      userSchema_validate = (\<lambda>a. None),
      shopSchema_validate = (\<lambda>a. None),
      JWT_SECRET_KEY = ''key'',
      JWT_EXPIRES = ''7d''\<rparr>"

definition sample_env :: env where
  "sample_env = \<lparr>Date_now = 1000, Math_random = 1 / 4, genSalt = ''salt'', new_id = 2\<rparr>"

text \<open>A draw of \<^verbatim>\<open>Math.random()\<close> whose product with 900000 is not a double.\<close>

definition rounded_draw :: real where
  "rounded_draw = 3002459799575362 / 2 ^ 52"

text \<open>An account as registration leaves it, and the same account once activated.\<close>

definition pending_account :: account where
  "pending_account =
     \<lparr>oid = 2, name = ''alice'', email = ''alice@example.com'', password = ''salt$secret1'',
      role = ''user'', avatar = ([], []), verificationOtp = Some ''325000'',
      verificationOtpExpiry = Some 601000, isVerified = False\<rparr>"

definition verified_account :: account where
  "verified_account =
     \<lparr>oid = 2, name = ''alice'', email = ''alice@example.com'', password = ''salt$secret1'',
      role = ''user'', avatar = ([], []), verificationOtp = None,
      verificationOtpExpiry = None, isVerified = True\<rparr>"

text \<open>The registration requests that leave that account.\<close>

definition sample_user_body :: user_body where
  "sample_user_body =
     \<lparr>body_name = ''alice'', body_email = ''alice@example.com'', body_password = ''secret1'',
      body_avatar = [], body_role = []\<rparr>"

definition sample_shop_body :: shop_body where
  "sample_shop_body =
     \<lparr>shop_name = ''alice'', shop_email = ''alice@example.com'', shop_password = ''secret1'',
      shop_avatar = Some (''shops/alice'', ''https://img.example.com/alice.png'')\<rparr>"

text \<open>The shop that request leaves, and the same shop once activated.\<close>

definition pending_shop :: account where
  "pending_shop =
     \<lparr>oid = 2, name = ''alice'', email = ''alice@example.com'', password = ''salt$secret1'',
      role = ''Seller'', avatar = (''shops/alice'', ''https://img.example.com/alice.png''),
      verificationOtp = Some ''325000'', verificationOtpExpiry = Some 601000,
      isVerified = False\<rparr>"

definition verified_shop :: account where
  "verified_shop =
     \<lparr>oid = 2, name = ''alice'', email = ''alice@example.com'', password = ''salt$secret1'',
      role = ''Seller'', avatar = (''shops/alice'', ''https://img.example.com/alice.png''),
      verificationOtp = None, verificationOtpExpiry = None, isVerified = True\<rparr>"

declare toString_nat.simps [simp del]

declare log2floor.simps [simp del]

section \<open>Store and document lemmas\<close>

lemma toLowerCase_sample: "toLowerCase ''alice@example.com'' = ''alice@example.com''"
  by (simp add: toLowerCase_def toLowerCase_char_def)

lemma findOne_replace:
  assumes "findOne coll e = Some a" "email a' = email a"
  shows "findOne (map (\<lambda>x. if oid x = oid a then a' else x) coll) e = Some a'"
  using assms unfolding findOne_def
  by (induction coll) (auto split: if_splits)

lemma findOne_email: "findOne coll e = Some a \<Longrightarrow> email a = toLowerCase e"
  unfolding findOne_def by (auto simp: find_Some_iff)

lemma doc_assign [simp]: "doc (assign p u d) = u (doc d)"
  by (simp add: assign_def Let_def)

lemma isNew_assign [simp]: "isNew (assign p u d) = isNew d"
  by (simp add: assign_def Let_def)

lemma isModified_assign [simp]: "p \<noteq> q \<Longrightarrow> isModified (assign p u d) q = isModified d q"
  by (auto simp add: assign_def Let_def isModified_def)

lemma isModified_load [simp]: "isModified (load a) q = False"
  by (simp add: load_def isModified_def)

lemma doc_load [simp]: "doc (load a) = a"
  by (simp add: load_def)

lemma isNew_load [simp]: "isNew (load a) = False"
  by (simp add: load_def)

section \<open>Properties of activation\<close>

lemma user_activation_success:
  assumes "findOne users em = Some a" "em \<noteq> []" "otp \<noteq> []" "\<not> isVerified a"
    "verificationOtp a = Some otp" "\<not> expired (verificationOtpExpiry a) (Date_now e)"
    "userSchema_validate w (a\<lparr>isVerified := True, verificationOtp := None, verificationOtpExpiry := None\<rparr>) = None"
  shows "user_activation w e users em otp =
    (Inr (sendToken w (a\<lparr>isVerified := True, verificationOtp := None, verificationOtpExpiry := None\<rparr>) 201),
     map (\<lambda>x. if oid x = oid a then a\<lparr>isVerified := True, verificationOtp := None, verificationOtpExpiry := None\<rparr> else x) users)"
  using assms
  by (simp add: user_activation_def Let_def user_save_def user_pre_save_def persist_def)

lemma shop_activation_success:
  assumes "findOne shops em = Some a" "em \<noteq> []" "otp \<noteq> []" "\<not> isVerified a"
    "verificationOtp a = Some otp" "\<not> expired (verificationOtpExpiry a) (Date_now e)"
    "shopSchema_validate w (a\<lparr>isVerified := True, verificationOtp := None, verificationOtpExpiry := None\<rparr>) = None"
  shows "shop_activation w e shops em otp =
    (Inr (sendShopToken (a\<lparr>isVerified := True, verificationOtp := None, verificationOtpExpiry := None\<rparr>) 201
       (getJwtToken w (a\<lparr>isVerified := True, verificationOtp := None, verificationOtpExpiry := None\<rparr>))),
     map (\<lambda>x. if oid x = oid a then a\<lparr>isVerified := True, verificationOtp := None, verificationOtpExpiry := None\<rparr> else x) shops)"
  using assms
  by (simp add: shop_activation_def Let_def shop_save_def shop_pre_save_def persist_def)

lemma user_activation_verified:
  "findOne users em = Some a \<Longrightarrow> em \<noteq> [] \<Longrightarrow> otp \<noteq> [] \<Longrightarrow> isVerified a \<Longrightarrow>
   user_activation w e users em otp = (Inl (ErrorHandler ''User already verified'' 400), users)"
  by (simp add: user_activation_def)

lemma shop_activation_verified:
  "findOne shops em = Some a \<Longrightarrow> em \<noteq> [] \<Longrightarrow> otp \<noteq> [] \<Longrightarrow> isVerified a \<Longrightarrow>
   shop_activation w e shops em otp = (Inl (ErrorHandler ''Shop already verified'' 400), shops)"
  by (simp add: shop_activation_def)

text \<open>
  Claim C1. An account that is not verified, found under the email supplied, whose stored
  OTP is the one supplied and whose expiry \<open>t\<close> has not passed (\<open>Date_now e \<le> t\<close>): when
  the schema's validators accept the document, activation answers with a token, and the
  account stored afterwards under that email is the same one, verified, with both OTP
  fields cleared; activating again with the same OTP, at any time, fails with
  ``already verified'' (400) and leaves the collection as it is. For users and for shops.
\<close>

theorem activation_verifies_once:
  assumes found: "findOne coll em = Some a"
    and supplied: "em \<noteq> []" "otp \<noteq> []"
    and pending: "\<not> isVerified a" "verificationOtp a = Some otp" "verificationOtpExpiry a = Some t"
    and in_time: "Date_now e \<le> t"
  shows "(userSchema_validate w (a\<lparr>isVerified := True, verificationOtp := None, verificationOtpExpiry := None\<rparr>) = None \<longrightarrow>
          (\<exists>r coll' a'. user_activation w e coll em otp = (Inr r, coll') \<and>
             findOne coll' em = Some a' \<and> oid a' = oid a \<and>
             isVerified a' \<and> verificationOtp a' = None \<and> verificationOtpExpiry a' = None \<and>
             (\<forall>e'. user_activation w e' coll' em otp =
                (Inl (ErrorHandler ''User already verified'' 400), coll')))) \<and>
         (shopSchema_validate w (a\<lparr>isVerified := True, verificationOtp := None, verificationOtpExpiry := None\<rparr>) = None \<longrightarrow>
          (\<exists>r coll' a'. shop_activation w e coll em otp = (Inr r, coll') \<and>
             findOne coll' em = Some a' \<and> oid a' = oid a \<and>
             isVerified a' \<and> verificationOtp a' = None \<and> verificationOtpExpiry a' = None \<and>
             (\<forall>e'. shop_activation w e' coll' em otp =
                (Inl (ErrorHandler ''Shop already verified'' 400), coll'))))"
proof (intro conjI impI)
  have live: "\<not> expired (verificationOtpExpiry a) (Date_now e)"
    using pending in_time by (simp add: expired_def)
  {
    assume ok: "userSchema_validate w (a\<lparr>isVerified := True, verificationOtp := None, verificationOtpExpiry := None\<rparr>) = None"
    let ?a = "a\<lparr>isVerified := True, verificationOtp := None, verificationOtpExpiry := None\<rparr>"
    let ?c = "map (\<lambda>x. if oid x = oid a then ?a else x) coll"
    have run: "user_activation w e coll em otp = (Inr (sendToken w ?a 201), ?c)"
      using found supplied pending(1,2) live ok by (rule user_activation_success)
    have f: "findOne ?c em = Some ?a"
      using found by (intro findOne_replace) simp_all
    have again: "\<forall>e'. user_activation w e' ?c em otp = (Inl (ErrorHandler ''User already verified'' 400), ?c)"
      using f supplied by (simp add: user_activation_verified)
    show "\<exists>r coll' a'. user_activation w e coll em otp = (Inr r, coll') \<and>
             findOne coll' em = Some a' \<and> oid a' = oid a \<and>
             isVerified a' \<and> verificationOtp a' = None \<and> verificationOtpExpiry a' = None \<and>
             (\<forall>e'. user_activation w e' coll' em otp =
                (Inl (ErrorHandler ''User already verified'' 400), coll'))"
      using run f again by (intro exI[of _ "sendToken w ?a 201"] exI[of _ ?c] exI[of _ ?a]) simp
  }
  {
    assume ok: "shopSchema_validate w (a\<lparr>isVerified := True, verificationOtp := None, verificationOtpExpiry := None\<rparr>) = None"
    let ?a = "a\<lparr>isVerified := True, verificationOtp := None, verificationOtpExpiry := None\<rparr>"
    let ?c = "map (\<lambda>x. if oid x = oid a then ?a else x) coll"
    have run: "shop_activation w e coll em otp = (Inr (sendShopToken ?a 201 (getJwtToken w ?a)), ?c)"
      using found supplied pending(1,2) live ok by (rule shop_activation_success)
    have f: "findOne ?c em = Some ?a"
      using found by (intro findOne_replace) simp_all
    have again: "\<forall>e'. shop_activation w e' ?c em otp = (Inl (ErrorHandler ''Shop already verified'' 400), ?c)"
      using f supplied by (simp add: shop_activation_verified)
    show "\<exists>r coll' a'. shop_activation w e coll em otp = (Inr r, coll') \<and>
             findOne coll' em = Some a' \<and> oid a' = oid a \<and>
             isVerified a' \<and> verificationOtp a' = None \<and> verificationOtpExpiry a' = None \<and>
             (\<forall>e'. shop_activation w e' coll' em otp =
                (Inl (ErrorHandler ''Shop already verified'' 400), coll'))"
      using run f again by (intro exI[of _ "sendShopToken ?a 201 (getJwtToken w ?a)"] exI[of _ ?c] exI[of _ ?a]) simp
  }
qed


theorem activation_verifies_once_witness:
  "findOne [pending_account] ''alice@example.com'' = Some pending_account \<and>
   (\<exists>r coll' a'. user_activation sample_world sample_env [pending_account] ''alice@example.com'' ''325000'' = (Inr r, coll') \<and>
      findOne coll' ''alice@example.com'' = Some a' \<and> oid a' = oid pending_account \<and>
      isVerified a' \<and> verificationOtp a' = None \<and> verificationOtpExpiry a' = None \<and>
      (\<forall>e'. user_activation sample_world e' coll' ''alice@example.com'' ''325000'' =
          (Inl (ErrorHandler ''User already verified'' 400), coll'))) \<and>
   (\<exists>r coll' a'. shop_activation sample_world sample_env [pending_account] ''alice@example.com'' ''325000'' = (Inr r, coll') \<and>
      findOne coll' ''alice@example.com'' = Some a' \<and> oid a' = oid pending_account \<and>
      isVerified a' \<and> verificationOtp a' = None \<and> verificationOtpExpiry a' = None \<and>
      (\<forall>e'. shop_activation sample_world e' coll' ''alice@example.com'' ''325000'' =
          (Inl (ErrorHandler ''Shop already verified'' 400), coll')))"
proof -
  have h1: "findOne [pending_account] ''alice@example.com'' = Some pending_account"
    by (simp add: findOne_def toLowerCase_sample pending_account_def)
  have h2: "''alice@example.com'' \<noteq> []" and h3: "''325000'' \<noteq> []" by simp_all
  have h4: "\<not> isVerified pending_account"
    and h5: "verificationOtp pending_account = Some ''325000''"
    and h6: "verificationOtpExpiry pending_account = Some 601000"
    by (simp_all add: pending_account_def)
  have h7: "Date_now sample_env \<le> 601000" by (simp add: sample_env_def)
  show ?thesis
    using h1 activation_verifies_once [OF h1 h2 h3 h4 h5 h6 h7, of sample_world]
    by (simp add: sample_world_def)
qed

text \<open>
  Claim C2. For an account that is not verified, activation with a supplied OTP that is
  not the stored one (whatever the expiry), or with any supplied OTP when the stored
  expiry is earlier than the clock, fails with ``Invalid or expired OTP'' (400), and the
  collection, hence the account's verification state and OTP fields, is unchanged. For
  users and for shops.
\<close>

theorem activation_rejects_wrong_or_expired_otp:
  assumes found: "findOne coll em = Some a"
    and supplied: "em \<noteq> []" "otp \<noteq> []"
    and pending: "\<not> isVerified a"
    and bad: "verificationOtp a \<noteq> Some otp \<or> (\<exists>t. verificationOtpExpiry a = Some t \<and> t < Date_now e)"
  shows "user_activation w e coll em otp = (Inl (ErrorHandler ''Invalid or expired OTP'' 400), coll) \<and>
         shop_activation w e coll em otp = (Inl (ErrorHandler ''Invalid or expired OTP'' 400), coll)"
proof -
  have "verificationOtp a \<noteq> Some otp \<or> expired (verificationOtpExpiry a) (Date_now e)"
    using bad by (auto simp: expired_def)
  then show ?thesis
    using found supplied pending by (simp add: user_activation_def shop_activation_def)
qed

theorem activation_rejects_wrong_or_expired_otp_witness:
  "user_activation sample_world sample_env [pending_account] ''alice@example.com'' ''000000'' =
     (Inl (ErrorHandler ''Invalid or expired OTP'' 400), [pending_account]) \<and>
   shop_activation sample_world sample_env [pending_account] ''alice@example.com'' ''000000'' =
     (Inl (ErrorHandler ''Invalid or expired OTP'' 400), [pending_account]) \<and>
   user_activation sample_world (sample_env\<lparr>Date_now := 601001\<rparr>) [pending_account] ''alice@example.com'' ''325000'' =
     (Inl (ErrorHandler ''Invalid or expired OTP'' 400), [pending_account]) \<and>
   shop_activation sample_world (sample_env\<lparr>Date_now := 601001\<rparr>) [pending_account] ''alice@example.com'' ''325000'' =
     (Inl (ErrorHandler ''Invalid or expired OTP'' 400), [pending_account])"
proof -
  have h1: "findOne [pending_account] ''alice@example.com'' = Some pending_account"
    by (simp add: findOne_def toLowerCase_sample pending_account_def)
  have h2: "''alice@example.com'' \<noteq> []" and h3: "''000000'' \<noteq> []" and h3': "''325000'' \<noteq> []"
    by simp_all
  have h4: "\<not> isVerified pending_account" by (simp add: pending_account_def)
  have wrong: "verificationOtp pending_account \<noteq> Some ''000000'' \<or>
      (\<exists>t. verificationOtpExpiry pending_account = Some t \<and> t < Date_now sample_env)"
    by (simp add: pending_account_def)
  have late: "verificationOtp pending_account \<noteq> Some ''325000'' \<or>
      (\<exists>t. verificationOtpExpiry pending_account = Some t \<and> t < Date_now (sample_env\<lparr>Date_now := 601001\<rparr>))"
    by (simp add: pending_account_def)
  show ?thesis
    using activation_rejects_wrong_or_expired_otp [OF h1 h2 h3 h4 wrong, of sample_world]
      activation_rejects_wrong_or_expired_otp [OF h1 h2 h3' h4 late, of sample_world]
    by simp
qed

section \<open>Properties of login\<close>

text \<open>
  Claim C4. For an account that is not verified, login with its email and any supplied
  password fails with the not-verified error (400), whatever \<open>bcrypt_compare\<close> would
  answer: the statement holds for every \<open>world\<close>. For users and for shops.
\<close>

theorem login_unverified_is_not_verified:
  assumes found: "findOne coll em = Some a"
    and supplied: "em \<noteq> []" "pw \<noteq> []"
    and unverified: "\<not> isVerified a"
  shows "user_login w coll em pw = Inl (ErrorHandler ''Please verify your account first!'' 400) \<and>
         shop_login w coll em pw = Inl (ErrorHandler ''Please verify your shop account first!'' 400)"
  using assms by (simp add: user_login_def shop_login_def)

theorem login_unverified_is_not_verified_witness:
  "comparePassword sample_world pending_account ''secret1'' \<and>
   \<not> comparePassword sample_world pending_account ''wrong'' \<and>
   user_login sample_world [pending_account] ''alice@example.com'' ''secret1'' =
     Inl (ErrorHandler ''Please verify your account first!'' 400) \<and>
   shop_login sample_world [pending_account] ''alice@example.com'' ''secret1'' =
     Inl (ErrorHandler ''Please verify your shop account first!'' 400) \<and>
   user_login sample_world [pending_account] ''alice@example.com'' ''wrong'' =
     Inl (ErrorHandler ''Please verify your account first!'' 400) \<and>
   shop_login sample_world [pending_account] ''alice@example.com'' ''wrong'' =
     Inl (ErrorHandler ''Please verify your shop account first!'' 400)"
proof -
  have h1: "findOne [pending_account] ''alice@example.com'' = Some pending_account"
    by (simp add: findOne_def toLowerCase_sample pending_account_def)
  have h2: "''alice@example.com'' \<noteq> []" and h3: "''secret1'' \<noteq> []" and h3': "''wrong'' \<noteq> []"
    by simp_all
  have h4: "\<not> isVerified pending_account" by (simp add: pending_account_def)
  have c: "comparePassword sample_world pending_account ''secret1''"
    "\<not> comparePassword sample_world pending_account ''wrong''"
    by (simp_all add: comparePassword_def sample_world_def pending_account_def)
  show ?thesis
    using c login_unverified_is_not_verified [OF h1 h2 h3 h4, of sample_world]
      login_unverified_is_not_verified [OF h1 h2 h3' h4, of sample_world]
    by simp
qed

lemma findOne_mem: "findOne coll e = Some a \<Longrightarrow> a \<in> set coll"
  unfolding findOne_def by (auto simp: find_Some_iff)

lemma findById_mem: "a \<in> set coll \<Longrightarrow> \<exists>u. findById coll (oid a) = Some u \<and> oid u = oid a"
  unfolding findById_def by (induction coll) auto

text \<open>
  Claim C5. For a verified account, login with its email and a supplied password that
  \<open>bcrypt_compare\<close> rejects fails with ``Invalid credentials'' (400); with one it accepts,
  login answers 201 with a token, and \<open>jwt_verify\<close> of that token under the configured
  secret gives the account's id, so that \<open>isAuthenticated\<close>, handed the token in the session
  cookie, resolves a principal of that id. The premise on the library is the round trip
  of \<open>jwt_sign\<close> and \<open>jwt_verify\<close> for this id under the configured secret. The user's
  token is sent by \<open>sendToken\<close>, modelled from the spec.
\<close>

theorem login_checks_password_and_token_round_trips:
  assumes found: "findOne coll em = Some a"
    and supplied: "em \<noteq> []" "pw \<noteq> []"
    and verified: "isVerified a"
    and round_trip: "jwt_verify w (jwt_sign w (oid a) (JWT_SECRET_KEY w) (JWT_EXPIRES w)) (JWT_SECRET_KEY w) = Inr (oid a)"
  shows "(\<not> comparePassword w a pw \<longrightarrow>
            user_login w coll em pw = Inl (ErrorHandler ''Invalid credentials'' 400) \<and>
            shop_login w coll em pw = Inl (ErrorHandler ''Invalid credentials'' 400)) \<and>
         (comparePassword w a pw \<longrightarrow>
            (\<exists>t. user_login w coll em pw = Inr (TokenResponse 201 ''token'' t a) \<and>
                 shop_login w coll em pw = Inr (TokenResponse 201 ''seller_token'' t a) \<and>
                 jwt_verify w t (JWT_SECRET_KEY w) = Inr (oid a) \<and>
                 (\<forall>req. cookies_token req = Some t \<and> t \<noteq> [] \<longrightarrow>
                    (\<exists>u. isAuthenticated w coll req = Inr u \<and> oid u = oid a))))"
proof (intro conjI impI)
  assume "\<not> comparePassword w a pw"
  then show "user_login w coll em pw = Inl (ErrorHandler ''Invalid credentials'' 400)"
    and "shop_login w coll em pw = Inl (ErrorHandler ''Invalid credentials'' 400)"
    using found supplied verified by (simp_all add: user_login_def shop_login_def)
next
  assume ok: "comparePassword w a pw"
  let ?t = "getJwtToken w a"
  have u: "user_login w coll em pw = Inr (TokenResponse 201 ''token'' ?t a)"
    using found supplied verified ok by (simp add: user_login_def sendToken_def)
  have s: "shop_login w coll em pw = Inr (TokenResponse 201 ''seller_token'' ?t a)"
    using found supplied verified ok by (simp add: shop_login_def sendShopToken_def)
  have v: "jwt_verify w ?t (JWT_SECRET_KEY w) = Inr (oid a)"
    using round_trip by (simp add: getJwtToken_def)
  obtain p where p: "findById coll (oid a) = Some p" "oid p = oid a"
    using findById_mem [OF findOne_mem [OF found]] by blast
  have m: "\<forall>req. cookies_token req = Some ?t \<and> ?t \<noteq> [] \<longrightarrow>
             (\<exists>u. isAuthenticated w coll req = Inr u \<and> oid u = oid a)"
    using v p by (simp add: isAuthenticated_def falsy_def)
  show "\<exists>t. user_login w coll em pw = Inr (TokenResponse 201 ''token'' t a) \<and>
             shop_login w coll em pw = Inr (TokenResponse 201 ''seller_token'' t a) \<and>
             jwt_verify w t (JWT_SECRET_KEY w) = Inr (oid a) \<and>
             (\<forall>req. cookies_token req = Some t \<and> t \<noteq> [] \<longrightarrow>
                (\<exists>u. isAuthenticated w coll req = Inr u \<and> oid u = oid a))"
    using u s v m by blast
qed

theorem login_checks_password_and_token_round_trips_witness:
  "user_login sample_world [verified_account] ''alice@example.com'' ''wrong'' =
      Inl (ErrorHandler ''Invalid credentials'' 400) \<and>
   shop_login sample_world [verified_account] ''alice@example.com'' ''wrong'' =
      Inl (ErrorHandler ''Invalid credentials'' 400) \<and>
   (\<exists>t. user_login sample_world [verified_account] ''alice@example.com'' ''secret1'' =
          Inr (TokenResponse 201 ''token'' t verified_account) \<and>
        shop_login sample_world [verified_account] ''alice@example.com'' ''secret1'' =
          Inr (TokenResponse 201 ''seller_token'' t verified_account) \<and>
        jwt_verify sample_world t (JWT_SECRET_KEY sample_world) = Inr (oid verified_account) \<and>
        (\<forall>req. cookies_token req = Some t \<and> t \<noteq> [] \<longrightarrow>
           (\<exists>u. isAuthenticated sample_world [verified_account] req = Inr u \<and>
                oid u = oid verified_account)))"
proof -
  have h1: "findOne [verified_account] ''alice@example.com'' = Some verified_account"
    by (simp add: findOne_def toLowerCase_sample verified_account_def)
  have h2: "''alice@example.com'' \<noteq> []" and h3: "''secret1'' \<noteq> []" and h3': "''wrong'' \<noteq> []"
    by simp_all
  have h4: "isVerified verified_account" by (simp add: verified_account_def)
  have h5: "jwt_verify sample_world
      (jwt_sign sample_world (oid verified_account) (JWT_SECRET_KEY sample_world)
         (JWT_EXPIRES sample_world)) (JWT_SECRET_KEY sample_world) = Inr (oid verified_account)"
    by (simp add: sample_world_def verified_account_def eval_nat_numeral)
  have c: "comparePassword sample_world verified_account ''secret1''"
    "\<not> comparePassword sample_world verified_account ''wrong''"
    by (simp_all add: comparePassword_def sample_world_def verified_account_def)
  show ?thesis
    using c login_checks_password_and_token_round_trips [OF h1 h2 h3 h4 h5]
      login_checks_password_and_token_round_trips [OF h1 h2 h3' h4 h5]
    by simp
qed

section \<open>Properties of the middleware\<close>

text \<open>
  Claim C9. For every allow-list and every resolved principal, the gate proceeds when
  the principal's role is in the list; when it is not, the gate fails with 403 and a
  message that starts with the role. The message names the role when the role is a
  non-empty string, as every role of the user schema's enum is (for an empty one the
  code says ``User''). In particular a principal of role \<^verbatim>\<open>user\<close> is refused by the gate
  \<^verbatim>\<open>isAdmin("Admin")\<close> with a message naming \<^verbatim>\<open>user\<close>.
\<close>

theorem role_gate:
  "(role u \<in> set roles \<longrightarrow> isAdmin roles (Some u) = Inr ()) \<and>
   (role u \<notin> set roles \<and> role u \<noteq> [] \<longrightarrow>
      isAdmin roles (Some u) =
        Inl (ErrorHandler (role u @ '' is not allowed to access this resource!'') 403)) \<and>
   (role u = ''user'' \<longrightarrow>
      isAdmin [''Admin''] (Some u) =
        Inl (ErrorHandler ''user is not allowed to access this resource!'' 403))"
  by (simp add: isAdmin_def falsy_def)

theorem role_gate_witness:
  "isAdmin [''Admin''] (Some verified_account) =
     Inl (ErrorHandler ''user is not allowed to access this resource!'' 403) \<and>
   isAdmin [''user'', ''seller''] (Some verified_account) = Inr () \<and>
   isAdmin [''admin''] (Some (verified_account\<lparr>role := ''seller''\<rparr>)) =
     Inl (ErrorHandler ''seller is not allowed to access this resource!'' 403)"
  using role_gate [of verified_account "[''Admin'']"]
    role_gate [of verified_account "[''user'', ''seller'']"]
    role_gate [of "verified_account\<lparr>role := ''seller''\<rparr>" "[''admin'']"]
  by (simp add: verified_account_def)

text \<open>The pieces of a Bearer header.\<close>

lemma split_no_sep: "c \<notin> set xs \<Longrightarrow> split c xs = [xs]"
  by (induction xs) auto

lemma split_at_sep: "c \<notin> set xs \<Longrightarrow> split c (xs @ c # ys) = xs # split c ys"
  by (induction xs) auto

lemma split_Bearer:
  assumes "CHR '' '' \<notin> set t"
  shows "index (split CHR '' '' (''Bearer '' @ t)) 1 = Some t"
proof -
  have "split CHR '' '' (''Bearer'' @ CHR '' '' # t) = ''Bearer'' # split CHR '' '' t"
    by (rule split_at_sep) simp
  then show ?thesis
    using assms by (simp add: split_no_sep index_def)
qed

text \<open>
  Claim C8. The shop middleware takes the token from the \<^verbatim>\<open>seller_token\<close> cookie when that
  is a non-empty string, whatever the header; with no such cookie (absent or empty) and
  an Authorization header \<^verbatim>\<open>Bearer t\<close>, the token is \<open>t\<close>; with no such cookie and no
  Bearer header there is no token. With no token it fails with 401; when verification of
  the token fails, with 401 and one fixed message, whatever the verification error was;
  when no shop has the verified id, with 404; when that shop is not verified, with 403;
  otherwise it yields the shop together with the token.
\<close>

theorem seller_middleware:
  "(cookies_seller_token req = Some c \<and> c \<noteq> [] \<longrightarrow> seller_token_of req = Some c) \<and>
   (falsy (cookies_seller_token req) \<and> headers_authorization req = Some (''Bearer '' @ t) \<and>
      CHR '' '' \<notin> set t \<longrightarrow> seller_token_of req = Some t) \<and>
   (falsy (cookies_seller_token req) \<and>
      (\<forall>h. headers_authorization req = Some h \<longrightarrow> \<not> startsWith h ''Bearer '') \<longrightarrow>
      falsy (seller_token_of req)) \<and>
   (falsy (seller_token_of req) \<longrightarrow>
      isSeller w shops req = Inl (ErrorHandler ''Please login as a seller to continue'' 401)) \<and>
   (seller_token_of req = Some tok \<and> tok \<noteq> [] \<and> jwt_verify w tok (JWT_SECRET_KEY w) = Inl err \<longrightarrow>
      isSeller w shops req = Inl (ErrorHandler ''Invalid or expired seller token'' 401)) \<and>
   (seller_token_of req = Some tok \<and> tok \<noteq> [] \<and> jwt_verify w tok (JWT_SECRET_KEY w) = Inr i \<and>
      findById shops i = None \<longrightarrow>
      isSeller w shops req = Inl (ErrorHandler ''Seller not found'' 404)) \<and>
   (seller_token_of req = Some tok \<and> tok \<noteq> [] \<and> jwt_verify w tok (JWT_SECRET_KEY w) = Inr i \<and>
      findById shops i = Some s \<and> \<not> isVerified s \<longrightarrow>
      isSeller w shops req = Inl (ErrorHandler ''Please verify your shop account'' 403)) \<and>
   (seller_token_of req = Some tok \<and> tok \<noteq> [] \<and> jwt_verify w tok (JWT_SECRET_KEY w) = Inr i \<and>
      findById shops i = Some s \<and> isVerified s \<longrightarrow>
      isSeller w shops req = Inr (s, tok))"
proof (intro conjI impI)
  assume "cookies_seller_token req = Some c \<and> c \<noteq> []"
  then show "seller_token_of req = Some c"
    by (simp add: seller_token_of_def falsy_def)
next
  assume a: "falsy (cookies_seller_token req) \<and> headers_authorization req = Some (''Bearer '' @ t) \<and>
      CHR '' '' \<notin> set t"
  then have "CHR '' '' \<notin> set t" by simp
  then have "index (split CHR '' '' (''Bearer '' @ t)) 1 = Some t"
    by (rule split_Bearer)
  with a show "seller_token_of req = Some t"
    by (simp add: seller_token_of_def startsWith_def)
next
  assume "falsy (cookies_seller_token req) \<and>
      (\<forall>h. headers_authorization req = Some h \<longrightarrow> \<not> startsWith h ''Bearer '')"
  then show "falsy (seller_token_of req)"
    by (auto simp add: seller_token_of_def split: option.splits)
qed (auto simp add: isSeller_def falsy_def split: option.splits)

theorem seller_middleware_witness:
  "isSeller sample_world [verified_account]
     \<lparr>cookies_token = None, cookies_seller_token = Some ''ii.key'',
      headers_authorization = Some ''Bearer bad''\<rparr> = Inr (verified_account, ''ii.key'') \<and>
   isSeller sample_world [verified_account]
     \<lparr>cookies_token = None, cookies_seller_token = None,
      headers_authorization = Some ''Bearer ii.key''\<rparr> = Inr (verified_account, ''ii.key'') \<and>
   isSeller sample_world [verified_account]
     \<lparr>cookies_token = Some ''ii.key'', cookies_seller_token = None,
      headers_authorization = Some ''Basic ii.key''\<rparr> =
     Inl (ErrorHandler ''Please login as a seller to continue'' 401) \<and>
   isSeller sample_world [verified_account]
     \<lparr>cookies_token = None, cookies_seller_token = Some [],
      headers_authorization = Some ''Bearer bad''\<rparr> =
     Inl (ErrorHandler ''Invalid or expired seller token'' 401) \<and>
   isSeller sample_world [verified_account]
     \<lparr>cookies_token = None, cookies_seller_token = Some ''iii.key'',
      headers_authorization = None\<rparr> = Inl (ErrorHandler ''Seller not found'' 404) \<and>
   isSeller sample_world [pending_account]
     \<lparr>cookies_token = None, cookies_seller_token = Some ''ii.key'',
      headers_authorization = None\<rparr> = Inl (ErrorHandler ''Please verify your shop account'' 403)"
proof -
  let ?w = sample_world
  let ?r1 = "\<lparr>cookies_token = None, cookies_seller_token = Some ''ii.key'',
      headers_authorization = Some ''Bearer bad''\<rparr>"
  let ?r2 = "\<lparr>cookies_token = None, cookies_seller_token = None,
      headers_authorization = Some ''Bearer ii.key''\<rparr>"
  let ?r3 = "\<lparr>cookies_token = Some ''ii.key'', cookies_seller_token = None,
      headers_authorization = Some ''Basic ii.key''\<rparr>"
  let ?r4 = "\<lparr>cookies_token = None, cookies_seller_token = Some [],
      headers_authorization = Some ''Bearer bad''\<rparr>"
  let ?r5 = "\<lparr>cookies_token = None, cookies_seller_token = Some ''iii.key'',
      headers_authorization = None\<rparr>"
  let ?r6 = "\<lparr>cookies_token = None, cookies_seller_token = Some ''ii.key'',
      headers_authorization = None\<rparr>"
  have v2: "jwt_verify ?w ''ii.key'' (JWT_SECRET_KEY ?w) = Inr 2"
    and v3: "jwt_verify ?w ''iii.key'' (JWT_SECRET_KEY ?w) = Inr 3"
    and vb: "jwt_verify ?w ''bad'' (JWT_SECRET_KEY ?w) = Inl ''invalid signature''"
    by (simp_all add: sample_world_def)
  have f2: "findById [verified_account] 2 = Some verified_account"
    and f3: "findById [verified_account] 3 = None"
    and fp: "findById [pending_account] 2 = Some pending_account"
    by (simp_all add: findById_def verified_account_def pending_account_def)
  have t1: "seller_token_of ?r1 = Some ''ii.key''"
    using seller_middleware [where req = ?r1 and c = "''ii.key''"] by simp
  have t2: "seller_token_of ?r2 = Some ''ii.key''"
    using seller_middleware [where req = ?r2 and t = "''ii.key''"] by (simp add: falsy_def)
  have t3: "falsy (seller_token_of ?r3)"
    using seller_middleware [where req = ?r3] by (simp add: falsy_def startsWith_def)
  have t4: "seller_token_of ?r4 = Some ''bad''"
    using seller_middleware [where req = ?r4 and t = "''bad''"] by (simp add: falsy_def)
  have t5: "seller_token_of ?r5 = Some ''iii.key''"
    using seller_middleware [where req = ?r5 and c = "''iii.key''"] by simp
  have t6: "seller_token_of ?r6 = Some ''ii.key''"
    using seller_middleware [where req = ?r6 and c = "''ii.key''"] by simp
  have "isSeller ?w [verified_account] ?r1 = Inr (verified_account, ''ii.key'')"
    using t1 v2 f2
      seller_middleware [where req = ?r1 and w = ?w and shops = "[verified_account]"
        and tok = "''ii.key''" and i = 2 and s = verified_account]
    by (simp add: verified_account_def)
  moreover have "isSeller ?w [verified_account] ?r2 = Inr (verified_account, ''ii.key'')"
    using t2 v2 f2
      seller_middleware [where req = ?r2 and w = ?w and shops = "[verified_account]"
        and tok = "''ii.key''" and i = 2 and s = verified_account]
    by (simp add: verified_account_def)
  moreover have "isSeller ?w [verified_account] ?r3 =
      Inl (ErrorHandler ''Please login as a seller to continue'' 401)"
    using t3 seller_middleware [where req = ?r3 and w = ?w and shops = "[verified_account]"]
    by simp
  moreover have "isSeller ?w [verified_account] ?r4 =
      Inl (ErrorHandler ''Invalid or expired seller token'' 401)"
    using t4 vb
      seller_middleware [where req = ?r4 and w = ?w and shops = "[verified_account]"
        and tok = "''bad''" and err = "''invalid signature''"]
    by simp
  moreover have "isSeller ?w [verified_account] ?r5 = Inl (ErrorHandler ''Seller not found'' 404)"
    using t5 v3 f3
      seller_middleware [where req = ?r5 and w = ?w and shops = "[verified_account]"
        and tok = "''iii.key''" and i = 3]
    by simp
  moreover have "isSeller ?w [pending_account] ?r6 =
      Inl (ErrorHandler ''Please verify your shop account'' 403)"
    using t6 v2 fp
      seller_middleware [where req = ?r6 and w = ?w and shops = "[pending_account]"
        and tok = "''ii.key''" and i = 2 and s = pending_account]
    by (simp add: pending_account_def)
  ultimately show ?thesis by blast
qed

section \<open>Properties of the rounding\<close>

lemma log2floor_bounds: "0 < n \<Longrightarrow> 2 ^ log2floor n \<le> n \<and> n < 2 ^ Suc (log2floor n)"
proof (induction n rule: log2floor.induct)
  case (1 n)
  show ?case
  proof (cases "n < 2")
    case True
    with 1(2) show ?thesis by (subst (1 2) log2floor.simps) simp
  next
    case False
    then have "0 < n div 2" by simp
    with 1 False have ih: "2 ^ log2floor (n div 2) \<le> n div 2" "n div 2 < 2 ^ Suc (log2floor (n div 2))"
      by simp_all
    have e: "log2floor n = Suc (log2floor (n div 2))"
      using False by (subst log2floor.simps) simp
    from ih show ?thesis unfolding e by auto
  qed
qed

lemma floor_log2_bounds:
  assumes "0 < a"
  shows "2 powi (floor_log2 a) \<le> a \<and> a < 2 powi (floor_log2 a + 1)"
proof (cases "1 \<le> a")
  case True
  define n where "n = nat \<lfloor>a\<rfloor>"
  define l where "l = log2floor n"
  have n: "0 < n" "real n \<le> a" "a < real n + 1"
    using True by (simp_all add: n_def)
  have b: "2 ^ l \<le> n" "n < 2 ^ Suc l"
    using log2floor_bounds [OF n(1)] by (simp_all add: l_def)
  have e: "floor_log2 a = int l" using True by (simp add: floor_log2_def n_def l_def)
  have "real (2 ^ l) \<le> real n" using b(1) by (rule iffD2 [OF of_nat_le_iff])
  then have p1: "(2::real) ^ l \<le> real n" by simp
  have p2: "real n + 1 \<le> 2 ^ Suc l"
  proof -
    have "n + 1 \<le> 2 ^ Suc l" using b(2) by simp
    then have "real (n + 1) \<le> real (2 ^ Suc l)" by (rule iffD2 [OF of_nat_le_iff])
    then show ?thesis by simp
  qed
  have q1: "(2::real) powi (int l) = 2 ^ l" by (simp only: power_int_of_nat)
  have q2: "(2::real) powi (int l + 1) = 2 ^ Suc l"
  proof -
    have "int l + 1 = int (Suc l)" by simp
    then show ?thesis by (simp only: power_int_of_nat)
  qed
  have "2 powi (int l) \<le> a" unfolding q1 using p1 n(2) by linarith
  moreover have "a < 2 powi (int l + 1)" unfolding q2 using p2 n(3) by linarith
  ultimately show ?thesis unfolding e by simp
next
  case False
  define y where "y = 1 / a"
  define m where "m = nat (\<lceil>y\<rceil> - 1)"
  define l where "l = log2floor m"
  have y: "1 < y" using False assms by (simp add: y_def)
  then have c: "2 \<le> \<lceil>y\<rceil>" by linarith
  have m: "0 < m" "real m < y" "y \<le> real m + 1"
    using c by (simp_all add: m_def) linarith+
  have b: "2 ^ l \<le> m" "m < 2 ^ Suc l"
    using log2floor_bounds [OF m(1)] by (simp_all add: l_def)
  have e: "floor_log2 a = - int (Suc l)"
    using False by (simp add: floor_log2_def y_def m_def l_def)
  have "real (2 ^ l) \<le> real m" using b(1) by (rule iffD2 [OF of_nat_le_iff])
  then have p1: "(2::real) ^ l \<le> real m" by simp
  have p2: "real m + 1 \<le> 2 ^ Suc l"
  proof -
    have "m + 1 \<le> 2 ^ Suc l" using b(2) by simp
    then have "real (m + 1) \<le> real (2 ^ Suc l)" by (rule iffD2 [OF of_nat_le_iff])
    then show ?thesis by simp
  qed
  have lo: "y \<le> 2 ^ Suc l" using m(3) p2 by linarith
  have hi: "2 ^ l < y" using m(2) p1 by linarith
  have a: "a = 1 / y" using assms by (simp add: y_def)
  have "1 / 2 ^ Suc l \<le> a"
    unfolding a using lo y by (intro divide_left_mono) simp_all
  moreover have "a < 1 / 2 ^ l"
    unfolding a using hi y by (intro divide_strict_left_mono) simp_all
  moreover have "(2::real) powi (- int (Suc l)) = 1 / 2 ^ Suc l"
  proof -
    have "(2::real) powi (- int (Suc l)) = 1 / 2 powi (int (Suc l))"
      by (rule power_int_minus_divide)
    also have "\<dots> = 1 / 2 ^ Suc l" by (simp only: power_int_of_nat)
    finally show ?thesis .
  qed
  moreover have "(2::real) powi (- int (Suc l) + 1) = 1 / 2 ^ l"
  proof -
    have "- int (Suc l) + 1 = - int l" by simp
    then have "(2::real) powi (- int (Suc l) + 1) = 2 powi (- int l)" by (rule arg_cong)
    also have "\<dots> = 1 / 2 powi (int l)" by (rule power_int_minus_divide)
    also have "\<dots> = 1 / 2 ^ l" by (simp only: power_int_of_nat)
    finally show ?thesis .
  qed
  ultimately show ?thesis unfolding e by (simp only: simp_thms)
qed

lemma exponent_less:
  assumes "0 < x" "x < 2 powi k" "- 1022 < k"
  shows "exponent x < k"
proof -
  have "2 powi (floor_log2 x) \<le> x" using floor_log2_bounds [OF assms(1)] by simp
  then have "(2::real) powi (floor_log2 x) < 2 powi k" using assms(2) by linarith
  then have "floor_log2 x < k"
    using power_int_increasing [of k "floor_log2 x" "2::real"] by (cases "floor_log2 x < k") simp_all
  then show ?thesis using assms by (simp add: exponent_def)
qed

lemma exponent_ge:
  assumes "0 < x" "2 powi k \<le> x"
  shows "k \<le> exponent x"
proof -
  have "x < 2 powi (floor_log2 x + 1)" using floor_log2_bounds [OF assms(1)] by simp
  then have "(2::real) powi k < 2 powi (floor_log2 x + 1)" using assms(2) by linarith
  then have "k < floor_log2 x + 1"
    using power_int_increasing [of "floor_log2 x + 1" k "2::real"]
    by (cases "k < floor_log2 x + 1") simp_all
  then show ?thesis using assms by (simp add: exponent_def)
qed

lemma roundTiesToEven_le: "y \<le> of_int n \<Longrightarrow> roundTiesToEven y \<le> n"
  unfolding roundTiesToEven_def Let_def by (auto; linarith)

lemma roundTiesToEven_ge: "of_int n \<le> y \<Longrightarrow> n \<le> roundTiesToEven y"
  unfolding roundTiesToEven_def Let_def by (auto; linarith)

lemma roundTiesToEven_le_near:
  "y \<le> of_int n + c \<Longrightarrow> c < 1 / 2 \<Longrightarrow> roundTiesToEven y \<le> n"
  unfolding roundTiesToEven_def Let_def by (auto; linarith)

lemma ulp_pos: "0 < ulp x"
  by (simp add: ulp_def)

lemma pow2_multiple:
  assumes "i \<le> j"
  shows "of_int n * (2::real) powi j = of_int (n * 2 ^ nat (j - i)) * 2 powi i"
proof -
  have "j = (j - i) + i" by simp
  then have "(2::real) powi j = 2 powi (j - i) * 2 powi i"
    using power_int_add [of "2::real" "j - i" i] by simp
  moreover have "(2::real) powi (j - i) = 2 ^ nat (j - i)"
    using assms by (simp add: power_int_def)
  ultimately show ?thesis by simp
qed

lemma multiple_of_ulp:
  assumes "exponent x - 52 \<le> j"
  shows "of_int n * 2 powi j = of_int (n * 2 ^ nat (j - (exponent x - 52))) * ulp x"
  unfolding ulp_def using assms by (rule pow2_multiple)

lemma double_le:
  assumes "x \<noteq> 0" "x \<le> of_int n * 2 powi j" "exponent x - 52 \<le> j"
  shows "double x \<le> of_int n * 2 powi j"
proof -
  let ?k = "n * 2 ^ nat (j - (exponent x - 52))"
  have b: "of_int n * 2 powi j = of_int ?k * ulp x" using assms(3) by (rule multiple_of_ulp)
  have "x / ulp x \<le> of_int ?k"
    using assms(2) ulp_pos [of x] unfolding b by (simp add: pos_divide_le_eq)
  then have "roundTiesToEven (x / ulp x) \<le> ?k" by (rule roundTiesToEven_le)
  then have "real_of_int (roundTiesToEven (x / ulp x)) \<le> real_of_int ?k" by linarith
  then have "of_int (roundTiesToEven (x / ulp x)) * ulp x \<le> of_int ?k * ulp x"
    using ulp_pos [of x] by (simp add: mult_right_mono)
  then show ?thesis using assms(1) unfolding b by (simp add: double_def)
qed

lemma double_ge:
  assumes "x \<noteq> 0" "of_int n * 2 powi j \<le> x" "exponent x - 52 \<le> j"
  shows "of_int n * 2 powi j \<le> double x"
proof -
  let ?k = "n * 2 ^ nat (j - (exponent x - 52))"
  have b: "of_int n * 2 powi j = of_int ?k * ulp x" using assms(3) by (rule multiple_of_ulp)
  have "of_int ?k \<le> x / ulp x"
    using assms(2) ulp_pos [of x] unfolding b by (simp add: pos_le_divide_eq)
  then have "?k \<le> roundTiesToEven (x / ulp x)" by (rule roundTiesToEven_ge)
  then have "real_of_int ?k \<le> real_of_int (roundTiesToEven (x / ulp x))" by linarith
  then have "of_int ?k * ulp x \<le> of_int (roundTiesToEven (x / ulp x)) * ulp x"
    using ulp_pos [of x] by (simp add: mult_right_mono)
  then show ?thesis using assms(1) unfolding b by (simp add: double_def)
qed

lemma double_representable:
  assumes "x \<noteq> 0" "x = of_int n * 2 powi j" "exponent x - 52 \<le> j"
  shows "double x = x"
proof -
  have "double x \<le> of_int n * 2 powi j" using assms by (intro double_le) simp_all
  moreover have "of_int n * 2 powi j \<le> double x" using assms by (intro double_ge) simp_all
  ultimately show ?thesis using assms(2) by linarith
qed


lemma double_nonneg: "0 \<le> x \<Longrightarrow> 0 \<le> double x"
proof (cases "x = 0")
  case True
  then show ?thesis by (simp add: double_def)
next
  case False
  assume "0 \<le> x"
  then have "of_int 0 * 2 powi (exponent x - 52) \<le> x" by simp
  with False have "of_int 0 * 2 powi (exponent x - 52) \<le> double x"
    by (intro double_ge) simp_all
  then show ?thesis by simp
qed

lemma double_product_le:
  assumes "0 \<le> r" "r \<le> 1 - 1 / 2 ^ 53"
  shows "double (r * 900000) \<le> 900000 - 1 / 2 ^ 33"
proof -
  let ?x = "r * 900000"
  have x: "0 \<le> ?x" "?x \<le> 900000 - 900000 / 2 ^ 53" using assms by simp_all
  consider "?x = 0" | "0 < ?x" "?x < 2 powi 19" | "2 powi 19 \<le> ?x" using x(1) by fastforce
  then show ?thesis
  proof cases
    case 1
    then show ?thesis by (simp add: double_def)
  next
    case 2
    then have "exponent ?x < 19" by (intro exponent_less) simp_all
    then have "exponent ?x - 52 \<le> 19" by simp
    moreover have "?x \<le> of_int 1 * 2 powi 19" using 2 by simp
    ultimately have "double ?x \<le> of_int 1 * 2 powi 19"
      using 2(1) by (intro double_le) simp_all
    then show ?thesis by simp
  next
    case 3
    then have pos: "0 < ?x" by (smt (verit) zero_less_power_int)
    have "19 \<le> exponent ?x" using pos 3 by (rule exponent_ge)
    moreover have "exponent ?x < 20" using pos x(2) by (intro exponent_less) simp_all
    ultimately have e: "exponent ?x = 19" by simp
    have u: "ulp ?x = 1 / 2 ^ 33" by (simp add: ulp_def e)
    have "?x / ulp ?x \<le> of_int (900000 * 2 ^ 33 - 1) + 148576 / 1048576"
      using x(2) unfolding u by simp
    then have "roundTiesToEven (?x / ulp ?x) \<le> 900000 * 2 ^ 33 - 1"
      by (rule roundTiesToEven_le_near) simp
    then have "real_of_int (roundTiesToEven (?x / ulp ?x)) \<le> real_of_int (900000 * 2 ^ 33 - 1)"
      by (simp only: of_int_le_iff)
    then have A: "real_of_int (roundTiesToEven (?x / ulp ?x)) * ulp ?x
        \<le> real_of_int (900000 * 2 ^ 33 - 1) * ulp ?x"
      using ulp_pos [of ?x] by (intro mult_right_mono) simp_all
    have B: "real_of_int (900000 * 2 ^ 33 - 1) * ulp ?x = 900000 - 1 / 2 ^ 33"
      unfolding u by simp
    have d: "double ?x = real_of_int (roundTiesToEven (?x / ulp ?x)) * ulp ?x"
      using pos by (simp add: double_def)
    have "double ?x \<le> real_of_int (900000 * 2 ^ 33 - 1) * ulp ?x"
      using A by (simp only: d)
    then show ?thesis by (simp only: B)
  qed
qed

lemma otp_double_range:
  assumes "0 \<le> r" "r \<le> 1 - 1 / 2 ^ 53"
  shows "100000 \<le> \<lfloor>double (100000 + double (r * 900000))\<rfloor> \<and>
         \<lfloor>double (100000 + double (r * 900000))\<rfloor> \<le> 999999"
proof -
  define y where "y = 100000 + double (r * 900000)"
  have "0 \<le> double (r * 900000)" using assms(1) by (intro double_nonneg) simp
  moreover have "double (r * 900000) \<le> 900000 - 1 / 2 ^ 33" using assms by (rule double_product_le)
  ultimately have y: "100000 \<le> y" "y \<le> 1000000 - 1 / 2 ^ 33" by (simp_all add: y_def)
  then have pos: "0 < y" "y \<noteq> 0" by simp_all
  have "y < 2 powi 20" using y(2) by simp
  then have "exponent y < 20" using pos(1) by (intro exponent_less) simp_all
  then have e: "exponent y - 52 \<le> - 33" "exponent y - 52 \<le> 0" by simp_all
  have "y \<le> of_int (1000000 * 2 ^ 33 - 1) * 2 powi (- 33)" using y(2) by simp
  then have "double y \<le> of_int (1000000 * 2 ^ 33 - 1) * 2 powi (- 33)"
    using pos(2) e(1) by (intro double_le)
  then have "double y < 1000000" by simp
  then have hi: "\<lfloor>double y\<rfloor> \<le> 999999" by (simp add: floor_less_iff)
  have "of_int 100000 * 2 powi 0 \<le> y" using y(1) by simp
  then have "of_int 100000 * 2 powi 0 \<le> double y"
    using pos(2) e(2) by (intro double_ge)
  then have lo: "100000 \<le> \<lfloor>double y\<rfloor>" by (simp add: le_floor_iff)
  show ?thesis using lo hi by (simp add: y_def)
qed

lemma double_below_one:
  assumes "double r = r" "0 \<le> r" "r < 1"
  shows "r \<le> 1 - 1 / 2 ^ 53"
proof (cases "r < 1 / 2")
  case True
  then show ?thesis by simp
next
  case False
  then have pos: "0 < r" "r \<noteq> 0" by simp_all
  have "2 powi (- 1) \<le> r" using False by simp
  then have "- 1 \<le> exponent r" using pos(1) by (intro exponent_ge)
  moreover have "exponent r < 0" using pos(1) assms(3) by (intro exponent_less) simp_all
  ultimately have e: "exponent r = - 1" by simp
  have u: "ulp r = 1 / 2 ^ 53" by (simp add: ulp_def e)
  define k where "k = roundTiesToEven (r / ulp r)"
  have "of_int k * ulp r = r"
    using assms(1) pos(2) unfolding k_def by (simp only: double_def if_False)
  then have r: "r = of_int k / 2 ^ 53" unfolding u by simp
  then have "real_of_int k < real_of_int (2 ^ 53)" using assms(3) by simp
  then have "k < 2 ^ 53" by (simp only: of_int_less_iff)
  then have "k \<le> 2 ^ 53 - 1" by simp
  then have "real_of_int k \<le> real_of_int (2 ^ 53 - 1)" by (simp only: of_int_le_iff)
  then show ?thesis unfolding r by (simp add: divide_simps)
qed

lemma double_of_int:
  assumes "0 < n" "real_of_int n < 2 powi 53"
  shows "double (of_int n) = of_int n"
proof -
  have "exponent (of_int n) < 53" using assms by (intro exponent_less) simp_all
  then have "exponent (real_of_int n) - 52 \<le> 0" by simp
  moreover have "real_of_int n = of_int n * 2 powi 0" by simp
  moreover have "real_of_int n \<noteq> 0" using assms(1) by simp
  ultimately show ?thesis by (intro double_representable)
qed

section \<open>Properties of registration\<close>

lemma digit_char_digit: "n < 10 \<Longrightarrow> digit_char n \<in> set ''0123456789''"
  unfolding digit_char_def by (rule nth_mem) simp

lemma toString_nat_digits: "set (toString_nat n) \<subseteq> set ''0123456789''"
proof (induction n rule: toString_nat.induct)
  case (1 n)
  show ?case
  proof (cases "n < 10")
    case True
    then show ?thesis using digit_char_digit [of n] by (subst toString_nat.simps) simp
  next
    case False
    then show ?thesis
      using 1 digit_char_digit [of "n mod 10"] by (subst toString_nat.simps) simp
  qed
qed

lemma length_toString_nat:
  "10 ^ k \<le> n \<Longrightarrow> n < 10 ^ Suc k \<Longrightarrow> length (toString_nat n) = Suc k"
proof (induction k arbitrary: n)
  case 0
  then show ?case by (subst toString_nat.simps) simp
next
  case (Suc k)
  have "\<not> n < 10"
  proof
    assume "n < 10"
    moreover have "(10::nat) \<le> 10 ^ Suc k" by simp
    ultimately show False using Suc.prems(1) by linarith
  qed
  moreover have "10 ^ k \<le> n div 10" using Suc.prems(1) by (simp add: less_eq_div_iff_mult_less_eq)
  moreover have "n div 10 < 10 ^ Suc k" using Suc.prems(2) by (simp add: div_less_iff_less_mult)
  ultimately show ?case using Suc.IH [of "n div 10"] by (subst toString_nat.simps) simp
qed

lemma toString_six_digits:
  assumes "100000 \<le> i" "i \<le> 999999"
  shows "toString i = toString_nat (nat i) \<and> length (toString i) = 6 \<and>
         set (toString i) \<subseteq> set ''0123456789''"
proof -
  have g: "toString i = toString_nat (nat i)"
    using assms by (simp add: toString_def)
  have "10 ^ 5 \<le> nat i" "nat i < 10 ^ Suc 5" using assms by simp_all
  then have "length (toString_nat (nat i)) = Suc 5" by (rule length_toString_nat)
  then show ?thesis using g toString_nat_digits [of "nat i"] by simp
qed

lemma generate_otp_six_digits:
  assumes "double r = r" "0 \<le> r" "r < 1"
  shows "\<exists>n. generate_otp r = toString_nat n \<and> 100000 \<le> n \<and> n \<le> 999999 \<and>
             length (generate_otp r) = 6 \<and> set (generate_otp r) \<subseteq> set ''0123456789''"
proof -
  obtain i where i: "i = \<lfloor>double (100000 + double (r * 900000))\<rfloor>" by simp
  have "r \<le> 1 - 1 / 2 ^ 53" using assms by (rule double_below_one)
  then have range: "100000 \<le> i" "i \<le> 999999"
    using otp_double_range [OF assms(2)] i by simp_all
  have g: "generate_otp r = toString i" by (simp only: generate_otp_def i)
  have "100000 \<le> nat i" "nat i \<le> 999999" using range by simp_all
  then show ?thesis using g toString_six_digits [OF range] by auto
qed

text \<open>
  Two draws: at a quarter nothing is rounded; at \<open>rounded_draw\<close> the product is rounded
  up, and the code is 700012 where the exact product gives 700011.
\<close>

lemma generate_otp_sample: "generate_otp (1 / 4) = ''325000''"
proof -
  have "double (1 / 4 * 900000) = 225000" using double_of_int [of 225000] by simp
  moreover have "double 325000 = 325000" using double_of_int [of 325000] by simp
  ultimately have "\<lfloor>double (100000 + double (1 / 4 * 900000))\<rfloor> = 325000" by simp
  then show ?thesis
    by (simp add: generate_otp_def toString_def toString_nat.simps digit_char_def)
qed

lemma double_sample: "double rounded_draw = rounded_draw \<and> 0 \<le> rounded_draw \<and> rounded_draw < 1"
proof -
  define r :: real where "r = rounded_draw"
  have r_def: "r = 3002459799575362 / 2 ^ 52" by (simp only: r_def rounded_draw_def)
  have "r < 2 powi 0" by (simp add: r_def)
  moreover have "0 < r" by (simp add: r_def)
  ultimately have "exponent r < 0" by (intro exponent_less) simp_all
  then have "exponent r - 52 \<le> - 52" by simp
  moreover have "r = of_int 3002459799575362 * 2 powi (- 52)" by (simp add: r_def)
  moreover have "r \<noteq> 0" by (simp add: r_def)
  ultimately have "double r = r" by (intro double_representable)
  then have "double rounded_draw = rounded_draw" by (simp only: \<open>r \<equiv> rounded_draw\<close>)
  moreover have "0 \<le> rounded_draw \<and> rounded_draw < 1" by (simp add: rounded_draw_def)
  ultimately show ?thesis by simp
qed

lemma generate_otp_rounded: "generate_otp rounded_draw = ''700012''"
proof -
  define x :: real where "x = rounded_draw * 900000"
  have x_def: "x = 3002459799575362 / 2 ^ 52 * 900000" by (simp only: x_def rounded_draw_def)
  have "19 \<le> exponent x" by (intro exponent_ge) (simp_all add: x_def)
  moreover have "exponent x < 20" by (intro exponent_less) (simp_all add: x_def)
  ultimately have e: "exponent x = 19" by simp
  have u: "ulp x = 1 / 2 ^ 33" by (simp add: ulp_def e)
  have "x \<noteq> 0" by (simp add: x_def)
  then have "double x = of_int (roundTiesToEven (x * 2 ^ 33)) / 2 ^ 33"
    unfolding double_def u by simp
  also have "roundTiesToEven (x * 2 ^ 33) = 5154063834415104"
    by (simp add: x_def roundTiesToEven_def)
  finally have dx: "double x = 5154063834415104 / 2 ^ 33" by simp
  define y :: real where "y = 100000 + 5154063834415104 / 2 ^ 33"
  have "19 \<le> exponent y" by (intro exponent_ge) (simp_all add: y_def)
  moreover have "exponent y < 20" by (intro exponent_less) (simp_all add: y_def)
  ultimately have e': "exponent y = 19" by simp
  have u': "ulp y = 1 / 2 ^ 33" by (simp add: ulp_def e')
  have "y \<noteq> 0" by (simp add: y_def)
  then have "double y = of_int (roundTiesToEven (y * 2 ^ 33)) / 2 ^ 33"
    unfolding double_def u' by simp
  also have "roundTiesToEven (y * 2 ^ 33) = 6013057293615104"
    by (simp add: y_def roundTiesToEven_def)
  finally have dy: "double y = 6013057293615104 / 2 ^ 33" by simp
  have "\<lfloor>double (100000 + double x)\<rfloor> = \<lfloor>double y\<rfloor>" by (simp only: dx y_def)
  also have "\<dots> = 700012" unfolding dy by simp
  finally have "\<lfloor>double (100000 + double (rounded_draw * 900000))\<rfloor> = 700012"
    by (simp only: \<open>x \<equiv> rounded_draw * 900000\<close>)
  then show ?thesis
    by (simp add: generate_otp_def toString_def toString_nat.simps digit_char_def)
qed

lemma exact_product_sample: "\<lfloor>100000 + rounded_draw * 900000\<rfloor> = 700011"
  by (simp add: rounded_draw_def)

lemma create_user_sample:
  "create_user sample_world sample_env [] sample_user_body =
     (Inr (Json 201 ''Please check your email (alice@example.com) to activate your account with the OTP!''),
      [pending_account],
      [Mail ''alice@example.com'' ''Activate your account''
         ''Hello alice, your OTP to activate your account is 325000. It expires in 10 minutes.''])"
  by (simp add: create_user_def sample_world_def sample_env_def sample_user_body_def findOne_def
      generate_otp_sample user_save_def user_pre_save_def isModified_def persist_def
      pending_account_def toLowerCase_sample)

lemma create_user_rounded_sample:
  "create_user sample_world (sample_env\<lparr>Math_random := rounded_draw\<rparr>) []
     sample_user_body =
     (Inr (Json 201 ''Please check your email (alice@example.com) to activate your account with the OTP!''),
      [pending_account\<lparr>verificationOtp := Some ''700012''\<rparr>],
      [Mail ''alice@example.com'' ''Activate your account''
         ''Hello alice, your OTP to activate your account is 700012. It expires in 10 minutes.''])"
  by (simp add: create_user_def sample_world_def sample_env_def sample_user_body_def findOne_def
      generate_otp_rounded user_save_def user_pre_save_def isModified_def persist_def
      pending_account_def toLowerCase_sample)

lemma create_shop_rounded_sample:
  "create_shop sample_world (sample_env\<lparr>Math_random := rounded_draw\<rparr>) []
     sample_shop_body =
     (Inr (Json 201 ''Please check your email (alice@example.com) to activate your shop account with the OTP!''),
      [pending_shop\<lparr>verificationOtp := Some ''700012''\<rparr>],
      [Mail ''alice@example.com'' ''Activate your shop account''
         ''Hello alice, your OTP to activate your shop account is 700012. It expires in 10 minutes.''])"
  by (simp add: create_shop_def sample_world_def sample_env_def sample_shop_body_def findOne_def
      generate_otp_rounded shop_save_def shop_pre_save_def isModified_def persist_def
      pending_shop_def toLowerCase_sample trim_def)

lemma create_shop_sample:
  "create_shop sample_world sample_env [] sample_shop_body =
     (Inr (Json 201 ''Please check your email (alice@example.com) to activate your shop account with the OTP!''),
      [pending_shop],
      [Mail ''alice@example.com'' ''Activate your shop account''
         ''Hello alice, your OTP to activate your shop account is 325000. It expires in 10 minutes.''])"
  by (simp add: create_shop_def sample_world_def sample_env_def sample_shop_body_def findOne_def
      generate_otp_sample shop_save_def shop_pre_save_def isModified_def persist_def
      pending_shop_def toLowerCase_sample trim_def)

text \<open>
  Claim C6. For a registration whose email is not taken (and, for a user, whose avatar
  upload, if any, succeeds), exactly one mail, to the email given, is handed to the mail
  transport; when the transport rejects it with an error, the handler fails with that
  error's message and status 500 and the collection is unchanged; and the collection is
  changed only when the transport accepted the mail, so the dispatch comes before the
  account is persisted. For users and for shops.
\<close>

theorem register_mails_before_persisting:
  "(findOne users (body_email b) = None \<and>
      (body_avatar b = [] \<or> (\<exists>av. cloudinary_upload w (body_avatar b) ''avatars'' = Inr av)) \<longrightarrow>
      (\<exists>subject text.
         snd (snd (create_user w e users b)) = [Mail (body_email b) subject text] \<and>
         (\<forall>msg. sendMail w (Mail (body_email b) subject text) = Some msg \<longrightarrow>
            create_user w e users b =
              (Inl (ErrorHandler msg 500), users, [Mail (body_email b) subject text])) \<and>
         (fst (snd (create_user w e users b)) \<noteq> users \<longrightarrow>
            sendMail w (Mail (body_email b) subject text) = None))) \<and>
   (findOne shops (shop_email sb) = None \<longrightarrow>
      (\<exists>subject text.
         snd (snd (create_shop w e shops sb)) = [Mail (shop_email sb) subject text] \<and>
         (\<forall>msg. sendMail w (Mail (shop_email sb) subject text) = Some msg \<longrightarrow>
            create_shop w e shops sb =
              (Inl (ErrorHandler msg 500), shops, [Mail (shop_email sb) subject text])) \<and>
         (fst (snd (create_shop w e shops sb)) \<noteq> shops \<longrightarrow>
            sendMail w (Mail (shop_email sb) subject text) = None)))"
proof (intro conjI impI)
  assume a: "findOne users (body_email b) = None \<and>
      (body_avatar b = [] \<or> (\<exists>av. cloudinary_upload w (body_avatar b) ''avatars'' = Inr av))"
  let ?subject = "''Activate your account''"
  let ?text = "''Hello '' @ body_name b @ '', your OTP to activate your account is ''
     @ generate_otp (Math_random e) @ ''. It expires in 10 minutes.''"
  let ?m = "Mail (body_email b) ?subject ?text"
  have 1: "snd (snd (create_user w e users b)) = [?m]"
    using a by (auto simp add: create_user_def Let_def split: option.splits sum.splits)
  have 2: "\<forall>msg. sendMail w ?m = Some msg \<longrightarrow>
      create_user w e users b = (Inl (ErrorHandler msg 500), users, [?m])"
    using a by (auto simp add: create_user_def Let_def split: option.splits sum.splits)
  have 3: "fst (snd (create_user w e users b)) \<noteq> users \<longrightarrow> sendMail w ?m = None"
    using a by (auto simp add: create_user_def Let_def split: option.splits sum.splits)
  show "\<exists>subject text.
         snd (snd (create_user w e users b)) = [Mail (body_email b) subject text] \<and>
         (\<forall>msg. sendMail w (Mail (body_email b) subject text) = Some msg \<longrightarrow>
            create_user w e users b =
              (Inl (ErrorHandler msg 500), users, [Mail (body_email b) subject text])) \<and>
         (fst (snd (create_user w e users b)) \<noteq> users \<longrightarrow>
            sendMail w (Mail (body_email b) subject text) = None)"
    using 1 2 3 by blast
next
  assume a: "findOne shops (shop_email sb) = None"
  let ?subject = "''Activate your shop account''"
  let ?text = "''Hello '' @ shop_name sb @ '', your OTP to activate your shop account is ''
     @ generate_otp (Math_random e) @ ''. It expires in 10 minutes.''"
  let ?m = "Mail (shop_email sb) ?subject ?text"
  have 1: "snd (snd (create_shop w e shops sb)) = [?m]"
    using a by (auto simp add: create_shop_def Let_def split: option.splits sum.splits)
  have 2: "\<forall>msg. sendMail w ?m = Some msg \<longrightarrow>
      create_shop w e shops sb = (Inl (ErrorHandler msg 500), shops, [?m])"
    using a by (auto simp add: create_shop_def Let_def split: option.splits sum.splits)
  have 3: "fst (snd (create_shop w e shops sb)) \<noteq> shops \<longrightarrow> sendMail w ?m = None"
    using a by (auto simp add: create_shop_def Let_def split: option.splits sum.splits)
  show "\<exists>subject text.
         snd (snd (create_shop w e shops sb)) = [Mail (shop_email sb) subject text] \<and>
         (\<forall>msg. sendMail w (Mail (shop_email sb) subject text) = Some msg \<longrightarrow>
            create_shop w e shops sb =
              (Inl (ErrorHandler msg 500), shops, [Mail (shop_email sb) subject text])) \<and>
         (fst (snd (create_shop w e shops sb)) \<noteq> shops \<longrightarrow>
            sendMail w (Mail (shop_email sb) subject text) = None)"
    using 1 2 3 by blast
qed

theorem register_mails_before_persisting_witness:
  "(\<exists>subject text.
      create_user (sample_world\<lparr>sendMail := \<lambda>m. Some ''ECONNREFUSED''\<rparr>) sample_env
        [verified_account\<lparr>email := ''bob@example.com''\<rparr>] sample_user_body =
        (Inl (ErrorHandler ''ECONNREFUSED'' 500), [verified_account\<lparr>email := ''bob@example.com''\<rparr>],
         [Mail ''alice@example.com'' subject text])) \<and>
   (\<exists>subject text.
      create_shop (sample_world\<lparr>sendMail := \<lambda>m. Some ''ECONNREFUSED''\<rparr>) sample_env
        [verified_account\<lparr>email := ''bob@example.com''\<rparr>] sample_shop_body =
        (Inl (ErrorHandler ''ECONNREFUSED'' 500), [verified_account\<lparr>email := ''bob@example.com''\<rparr>],
         [Mail ''alice@example.com'' subject text]))"
proof -
  let ?w = "sample_world\<lparr>sendMail := \<lambda>m. Some ''ECONNREFUSED''\<rparr>"
  let ?c = "[verified_account\<lparr>email := ''bob@example.com''\<rparr>]"
  have free: "findOne ?c (body_email sample_user_body) = None"
    "findOne ?c (shop_email sample_shop_body) = None"
    by (simp_all add: findOne_def sample_user_body_def sample_shop_body_def toLowerCase_sample)
  have av: "body_avatar sample_user_body = []" by (simp add: sample_user_body_def)
  have fails: "\<And>m. sendMail ?w m = Some ''ECONNREFUSED''" by simp
  have em: "body_email sample_user_body = ''alice@example.com''"
    "shop_email sample_shop_body = ''alice@example.com''"
    by (simp_all add: sample_user_body_def sample_shop_body_def)
  note t = register_mails_before_persisting
      [of ?c sample_user_body ?w sample_env ?c sample_shop_body]
  from t free(1) av obtain s1 t1 where
    "\<forall>msg. sendMail ?w (Mail (body_email sample_user_body) s1 t1) = Some msg \<longrightarrow>
       create_user ?w sample_env ?c sample_user_body =
         (Inl (ErrorHandler msg 500), ?c, [Mail (body_email sample_user_body) s1 t1])"
    by blast
  then have u: "create_user ?w sample_env ?c sample_user_body =
      (Inl (ErrorHandler ''ECONNREFUSED'' 500), ?c, [Mail ''alice@example.com'' s1 t1])"
    using fails em by metis
  from t free(2) obtain s2 t2 where
    "\<forall>msg. sendMail ?w (Mail (shop_email sample_shop_body) s2 t2) = Some msg \<longrightarrow>
       create_shop ?w sample_env ?c sample_shop_body =
         (Inl (ErrorHandler msg 500), ?c, [Mail (shop_email sample_shop_body) s2 t2])"
    by blast
  then have s: "create_shop ?w sample_env ?c sample_shop_body =
      (Inl (ErrorHandler ''ECONNREFUSED'' 500), ?c, [Mail ''alice@example.com'' s2 t2])"
    using fails em by metis
  show ?thesis using u s by blast
qed

text \<open>
  Claim C7. When \<^verbatim>\<open>Math.random()\<close> is a double from 0 up to but not including 1, a
  registration that succeeds appends one account to the collection, with the email
  given, lower-cased, not verified, whose stored OTP is the generated code and whose
  stored expiry is the clock at issuance plus 600000 milliseconds; and the generated
  code, computed in doubles as the code computes it, is the decimal writing of a number
  from 100000 to 999999: six characters, all digits. For users and for shops.
\<close>

theorem register_leaves_pending_account:
  assumes "double (Math_random e) = Math_random e" "0 \<le> Math_random e" "Math_random e < 1"
  shows "(create_user w e users b = (Inr r, users', ms) \<longrightarrow>
            (\<exists>a. users' = users @ [a] \<and> email a = toLowerCase (body_email b) \<and> \<not> isVerified a \<and>
                 verificationOtp a = Some (generate_otp (Math_random e)) \<and>
                 verificationOtpExpiry a = Some (Date_now e + 600000))) \<and>
         (create_shop w e shops sb = (Inr r', shops', ms') \<longrightarrow>
            (\<exists>a. shops' = shops @ [a] \<and> email a = toLowerCase (shop_email sb) \<and> \<not> isVerified a \<and>
                 verificationOtp a = Some (generate_otp (Math_random e)) \<and>
                 verificationOtpExpiry a = Some (Date_now e + 600000))) \<and>
         (\<exists>n. generate_otp (Math_random e) = toString_nat n \<and> 100000 \<le> n \<and> n \<le> 999999 \<and>
              length (generate_otp (Math_random e)) = 6 \<and>
              set (generate_otp (Math_random e)) \<subseteq> set ''0123456789'')"
proof (intro conjI impI)
  assume "create_user w e users b = (Inr r, users', ms)"
  then show "\<exists>a. users' = users @ [a] \<and> email a = toLowerCase (body_email b) \<and> \<not> isVerified a \<and>
                 verificationOtp a = Some (generate_otp (Math_random e)) \<and>
                 verificationOtpExpiry a = Some (Date_now e + 600000)"
    by (auto simp add: create_user_def Let_def user_save_def user_pre_save_def persist_def
        split: option.splits sum.splits if_splits)
next
  assume "create_shop w e shops sb = (Inr r', shops', ms')"
  then show "\<exists>a. shops' = shops @ [a] \<and> email a = toLowerCase (shop_email sb) \<and> \<not> isVerified a \<and>
                 verificationOtp a = Some (generate_otp (Math_random e)) \<and>
                 verificationOtpExpiry a = Some (Date_now e + 600000)"
    by (auto simp add: create_shop_def Let_def shop_save_def shop_pre_save_def persist_def
        split: option.splits sum.splits if_splits)
next
  show "\<exists>n. generate_otp (Math_random e) = toString_nat n \<and> 100000 \<le> n \<and> n \<le> 999999 \<and>
              length (generate_otp (Math_random e)) = 6 \<and>
              set (generate_otp (Math_random e)) \<subseteq> set ''0123456789''"
    using assms by (rule generate_otp_six_digits)
qed

theorem register_leaves_pending_account_witness:
  "(\<exists>r ms a. create_user sample_world (sample_env\<lparr>Math_random := rounded_draw\<rparr>) []
        sample_user_body = (Inr r, [a], ms) \<and>
      email a = ''alice@example.com'' \<and> \<not> isVerified a \<and>
      verificationOtp a = Some ''700012'' \<and> verificationOtpExpiry a = Some 601000) \<and>
   (\<exists>r ms a. create_shop sample_world (sample_env\<lparr>Math_random := rounded_draw\<rparr>) []
        sample_shop_body = (Inr r, [a], ms) \<and>
      email a = ''alice@example.com'' \<and> \<not> isVerified a \<and>
      verificationOtp a = Some ''700012'' \<and> verificationOtpExpiry a = Some 601000) \<and>
   (\<exists>n. ''700012'' = toString_nat n \<and> 100000 \<le> n \<and> n \<le> 999999) \<and>
   length ''700012'' = 6 \<and> set ''700012'' \<subseteq> set ''0123456789''"
proof -
  let ?e = "sample_env\<lparr>Math_random := rounded_draw\<rparr>"
  have r: "double (Math_random ?e) = Math_random ?e" "0 \<le> Math_random ?e" "Math_random ?e < 1"
    using double_sample by simp_all
  have g: "generate_otp (Math_random ?e) = ''700012''"
    using generate_otp_rounded by simp
  have d: "Date_now ?e + 600000 = 601000" by (simp add: sample_env_def)
  have e: "toLowerCase (body_email sample_user_body) = ''alice@example.com''"
    "toLowerCase (shop_email sample_shop_body) = ''alice@example.com''"
    by (simp_all add: sample_user_body_def sample_shop_body_def toLowerCase_sample)
  note t = register_leaves_pending_account [OF r, where w = sample_world and users = "[]"
      and b = sample_user_body and users' = "[pending_account\<lparr>verificationOtp := Some ''700012''\<rparr>]"
      and shops = "[]" and sb = sample_shop_body
      and shops' = "[pending_shop\<lparr>verificationOtp := Some ''700012''\<rparr>]",
      unfolded g d e]
  show ?thesis
    using t create_user_rounded_sample create_shop_rounded_sample by auto
qed

section \<open>Password hashing on save\<close>


lemma user_save_unmodified:
  "userSchema_validate w (doc d) = None \<Longrightarrow> \<not> isModified d ''password'' \<Longrightarrow>
   user_save w s coll d = Inr (persist coll d, d)"
  by (simp add: user_save_def user_pre_save_def Let_def)

lemma shop_save_unmodified:
  "shopSchema_validate w (doc d) = None \<Longrightarrow> \<not> isModified d ''password'' \<Longrightarrow>
   shop_save w s coll d = Inr (persist coll d, d)"
  by (simp add: shop_save_def shop_pre_save_def Let_def)

lemma create_user_success:
  assumes "create_user w e users b = (Inr r, users', ms)"
  shows "findOne users (body_email b) = None \<and>
         (\<exists>a. users' = users @ [a] \<and> email a = toLowerCase (body_email b) \<and>
              password a = bcrypt_hash w (genSalt e) (body_password b))"
  using assms
  by (auto simp add: create_user_def Let_def user_save_def user_pre_save_def persist_def
      isModified_def split: option.splits sum.splits if_splits)

lemma create_shop_success:
  assumes "create_shop w e shops sb = (Inr r, shops', ms)"
  shows "findOne shops (shop_email sb) = None \<and>
         (\<exists>a. shops' = shops @ [a] \<and> email a = toLowerCase (shop_email sb) \<and>
              password a = bcrypt_hash w (genSalt e) (shop_password sb))"
  using assms
  by (auto simp add: create_shop_def Let_def shop_save_def shop_pre_save_def persist_def
      isModified_def split: option.splits sum.splits if_splits)

lemma user_activation_keeps_password:
  assumes found: "findOne users em = Some a"
    and act: "user_activation w e users em otp = (Inr r, users')"
  shows "em \<noteq> [] \<and>
         findOne users' em =
           Some (a\<lparr>isVerified := True, verificationOtp := None, verificationOtpExpiry := None\<rparr>)"
proof -
  let ?a = "a\<lparr>isVerified := True, verificationOtp := None, verificationOtpExpiry := None\<rparr>"
  have c: "em \<noteq> []" "otp \<noteq> []" "\<not> isVerified a" "verificationOtp a = Some otp"
    "\<not> expired (verificationOtpExpiry a) (Date_now e)"
    using act found by (auto simp add: user_activation_def split: if_splits)
  have v: "userSchema_validate w ?a = None"
    using act found c
    by (auto simp add: user_activation_def user_save_def Let_def split: option.splits)
  have "users' = map (\<lambda>x. if oid x = oid a then ?a else x) users"
    using act user_activation_success [OF found c v] by simp
  then show ?thesis
    using c(1) findOne_replace [OF found, of ?a] by simp
qed

lemma shop_activation_keeps_password:
  assumes found: "findOne shops em = Some a"
    and act: "shop_activation w e shops em otp = (Inr r, shops')"
  shows "em \<noteq> [] \<and>
         findOne shops' em =
           Some (a\<lparr>isVerified := True, verificationOtp := None, verificationOtpExpiry := None\<rparr>)"
proof -
  let ?a = "a\<lparr>isVerified := True, verificationOtp := None, verificationOtpExpiry := None\<rparr>"
  have c: "em \<noteq> []" "otp \<noteq> []" "\<not> isVerified a" "verificationOtp a = Some otp"
    "\<not> expired (verificationOtpExpiry a) (Date_now e)"
    using act found by (auto simp add: shop_activation_def split: if_splits)
  have v: "shopSchema_validate w ?a = None"
    using act found c
    by (auto simp add: shop_activation_def shop_save_def Let_def split: option.splits)
  have "shops' = map (\<lambda>x. if oid x = oid a then ?a else x) shops"
    using act shop_activation_success [OF found c v] by simp
  then show ?thesis
    using c(1) findOne_replace [OF found, of ?a] by simp
qed

lemma shop_activation_sample:
  "shop_activation sample_world (sample_env\<lparr>genSalt := ''pepper''\<rparr>) [pending_shop]
     ''alice@example.com'' ''325000'' =
     (Inr (TokenResponse 201 ''seller_token'' ''ii.key'' verified_shop), [verified_shop])"
  by (simp add: shop_activation_def findOne_def toLowerCase_sample pending_shop_def
      verified_shop_def expired_def sample_env_def Let_def shop_save_def shop_pre_save_def
      persist_def sample_world_def sendShopToken_def getJwtToken_def eval_nat_numeral)


text \<open>
  Claim C3. For users and for shops: a registration that succeeds stores, as the
  account's password, the hash of the password given, made once with the salt of that
  request, so the password given is stored only if the hash returns it unchanged. A
  save of a document whose password was not modified hashes nothing: the hook leaves
  the document as it is and, when the validators accept it, that document is what is
  written. A save of a document whose password was modified writes the hash of the new
  password. And after an activation that succeeds, which saves the account without
  assigning its password, the account stored under the email has the password it had.
\<close>

theorem password_hashed_at_creation_and_kept:
  "(create_user w e users b = (Inr r, users', ms) \<longrightarrow>
      (\<exists>a. users' = users @ [a] \<and> password a = bcrypt_hash w (genSalt e) (body_password b))) \<and>
   (create_shop w e shops sb = (Inr r', shops', ms') \<longrightarrow>
      (\<exists>a. shops' = shops @ [a] \<and> password a = bcrypt_hash w (genSalt e) (shop_password sb))) \<and>
   (\<not> isModified d ''password'' \<longrightarrow> user_pre_save w s d = d \<and> shop_pre_save w s d = d) \<and>
   (\<not> isModified d ''password'' \<and> userSchema_validate w (doc d) = None \<longrightarrow>
      user_save w s coll d = Inr (persist coll d, d)) \<and>
   (\<not> isModified d ''password'' \<and> shopSchema_validate w (doc d) = None \<longrightarrow>
      shop_save w s coll d = Inr (persist coll d, d)) \<and>
   (isModified d ''password'' \<longrightarrow>
      password (doc (user_pre_save w s d)) = bcrypt_hash w s (password (doc d)) \<and>
      password (doc (shop_pre_save w s d)) = bcrypt_hash w s (password (doc d))) \<and>
   (findOne coll em = Some a \<and> user_activation w e coll em otp = (Inr r1, coll1) \<longrightarrow>
      (\<exists>a'. findOne coll1 em = Some a' \<and> password a' = password a)) \<and>
   (findOne coll em = Some a \<and> shop_activation w e coll em otp = (Inr r2, coll2) \<longrightarrow>
      (\<exists>a'. findOne coll2 em = Some a' \<and> password a' = password a))"
proof (intro conjI impI)
  assume "create_user w e users b = (Inr r, users', ms)"
  then show "\<exists>a. users' = users @ [a] \<and> password a = bcrypt_hash w (genSalt e) (body_password b)"
    using create_user_success by blast
next
  assume "create_shop w e shops sb = (Inr r', shops', ms')"
  then show "\<exists>a. shops' = shops @ [a] \<and> password a = bcrypt_hash w (genSalt e) (shop_password sb)"
    using create_shop_success by blast
next
  assume "\<not> isModified d ''password''"
  then show "user_pre_save w s d = d" and "shop_pre_save w s d = d"
    by (simp_all add: user_pre_save_def shop_pre_save_def)
next
  assume "\<not> isModified d ''password'' \<and> userSchema_validate w (doc d) = None"
  then show "user_save w s coll d = Inr (persist coll d, d)"
    by (simp add: user_save_unmodified)
next
  assume "\<not> isModified d ''password'' \<and> shopSchema_validate w (doc d) = None"
  then show "shop_save w s coll d = Inr (persist coll d, d)"
    by (simp add: shop_save_unmodified)
next
  assume "isModified d ''password''"
  then show "password (doc (user_pre_save w s d)) = bcrypt_hash w s (password (doc d))"
    and "password (doc (shop_pre_save w s d)) = bcrypt_hash w s (password (doc d))"
    by (simp_all add: user_pre_save_def shop_pre_save_def)
next
  assume "findOne coll em = Some a \<and> user_activation w e coll em otp = (Inr r1, coll1)"
  then show "\<exists>a'. findOne coll1 em = Some a' \<and> password a' = password a"
    using user_activation_keeps_password [of coll em a w e otp r1 coll1] by simp
next
  assume "findOne coll em = Some a \<and> shop_activation w e coll em otp = (Inr r2, coll2)"
  then show "\<exists>a'. findOne coll2 em = Some a' \<and> password a' = password a"
    using shop_activation_keeps_password [of coll em a w e otp r2 coll2] by simp
qed

theorem password_hashed_at_creation_and_kept_witness:
  "(\<exists>a. [pending_account] = [] @ [a] \<and> password a = ''salt$secret1'') \<and>
   (\<exists>a. [pending_shop] = [] @ [a] \<and> password a = ''salt$secret1'') \<and>
   user_save sample_world ''pepper'' [verified_account] (load verified_account) =
     Inr ([verified_account], load verified_account) \<and>
   shop_save sample_world ''pepper'' [verified_shop] (load verified_shop) =
     Inr ([verified_shop], load verified_shop) \<and>
   password (doc (user_pre_save sample_world ''pepper''
     (assign ''password'' (\<lambda>a. a\<lparr>password := ''secret2''\<rparr>) (load verified_account)))) =
     ''pepper$secret2'' \<and>
   password (doc (shop_pre_save sample_world ''pepper''
     (assign ''password'' (\<lambda>a. a\<lparr>password := ''secret2''\<rparr>) (load verified_shop)))) =
     ''pepper$secret2'' \<and>
   (\<exists>a'. findOne [verified_shop] ''alice@example.com'' = Some a' \<and> password a' = ''salt$secret1'')"
proof -
  let ?w = sample_world
  let ?e = "sample_env\<lparr>genSalt := ''pepper''\<rparr>"
  let ?du = "assign ''password'' (\<lambda>a. a\<lparr>password := ''secret2''\<rparr>) (load verified_account)"
  let ?ds = "assign ''password'' (\<lambda>a. a\<lparr>password := ''secret2''\<rparr>) (load verified_shop)"
  have salt: "genSalt sample_env = ''salt''" by (simp add: sample_env_def)
  have hash: "bcrypt_hash ?w ''salt'' (body_password sample_user_body) = ''salt$secret1''"
    "bcrypt_hash ?w ''salt'' (shop_password sample_shop_body) = ''salt$secret1''"
    by (simp_all add: sample_world_def sample_user_body_def sample_shop_body_def)
  have 1: "\<exists>a. [pending_account] = [] @ [a] \<and> password a = ''salt$secret1''"
    using password_hashed_at_creation_and_kept
      [where w = ?w and e = sample_env and users = "[]" and b = sample_user_body
        and users' = "[pending_account]"]
      create_user_sample salt hash by simp
  have 2: "\<exists>a. [pending_shop] = [] @ [a] \<and> password a = ''salt$secret1''"
    using password_hashed_at_creation_and_kept
      [where w = ?w and e = sample_env and shops = "[]" and sb = sample_shop_body
        and shops' = "[pending_shop]"]
      create_shop_sample salt hash by simp
  have nu: "\<not> isModified (load verified_account) ''password''"
    and ns: "\<not> isModified (load verified_shop) ''password''"
    by simp_all
  have vu: "userSchema_validate ?w (doc (load verified_account)) = None"
    and vs: "shopSchema_validate ?w (doc (load verified_shop)) = None"
    by (simp_all add: sample_world_def)
  have pu: "persist [verified_account] (load verified_account) = [verified_account]"
    and ps: "persist [verified_shop] (load verified_shop) = [verified_shop]"
    by (simp_all add: persist_def)
  have 3: "user_save ?w ''pepper'' [verified_account] (load verified_account) =
      Inr ([verified_account], load verified_account)"
    using password_hashed_at_creation_and_kept
      [where w = ?w and d = "load verified_account" and s = "''pepper''"
        and coll = "[verified_account]"] nu vu pu by simp
  have 4: "shop_save ?w ''pepper'' [verified_shop] (load verified_shop) =
      Inr ([verified_shop], load verified_shop)"
    using password_hashed_at_creation_and_kept
      [where w = ?w and d = "load verified_shop" and s = "''pepper''"
        and coll = "[verified_shop]"] ns vs ps by simp
  have mu: "isModified ?du ''password''" "password (doc ?du) = ''secret2''"
    by (simp_all add: assign_def load_def isModified_def verified_account_def)
  have ms: "isModified ?ds ''password''" "password (doc ?ds) = ''secret2''"
    by (simp_all add: assign_def load_def isModified_def verified_shop_def)
  have h2: "bcrypt_hash ?w ''pepper'' ''secret2'' = ''pepper$secret2''"
    by (simp add: sample_world_def)
  have 5: "password (doc (user_pre_save ?w ''pepper'' ?du)) = ''pepper$secret2''"
    using password_hashed_at_creation_and_kept [where w = ?w and d = ?du and s = "''pepper''"]
      mu h2 by simp
  have 6: "password (doc (shop_pre_save ?w ''pepper'' ?ds)) = ''pepper$secret2''"
    using password_hashed_at_creation_and_kept [where w = ?w and d = ?ds and s = "''pepper''"]
      ms h2 by simp
  have f: "findOne [pending_shop] ''alice@example.com'' = Some pending_shop"
    by (simp add: findOne_def toLowerCase_sample pending_shop_def)
  have p: "password pending_shop = ''salt$secret1''" by (simp add: pending_shop_def)
  have 7: "\<exists>a'. findOne [verified_shop] ''alice@example.com'' = Some a' \<and>
      password a' = ''salt$secret1''"
    using password_hashed_at_creation_and_kept
      [where w = ?w and e = ?e and coll = "[pending_shop]" and em = "''alice@example.com''"
        and a = pending_shop and otp = "''325000''" and ?coll2.0 = "[verified_shop]"]
      f p shop_activation_sample by simp
  show ?thesis using 1 2 3 4 5 6 7 by blast
qed




end
